theory Spec2Isabelle
  imports Main "HOL-Library.Word"
begin

unbundle bit_operations_syntax

section \<open>The CSR file of the RISC-V target (target/riscv/csr.c)\<close>

text \<open>
  The embedding follows the system-emulation build of \<^verbatim>\<open>csr.c\<close>
  (\<^verbatim>\<open>CONFIG_USER_ONLY\<close> undefined), in which the privilege gate, the machine and
  supervisor registers and the counter-enable check are compiled in.

  \<^verbatim>\<open>target_ulong\<close> is \<open>'a word\<close>: the RV32 build is the instance
  \<open>LENGTH('a) = 32\<close> and the RV64 build the instance \<open>LENGTH('a) = 64\<close>; every
  \<^verbatim>\<open>#if defined(TARGET_RISCV32)\<close> of the source is a test of \<open>LENGTH('a) = 32\<close>.
  \<^verbatim>\<open>int csrno\<close> is an \<open>int\<close>, \<^verbatim>\<open>uint32_t\<close> is \<open>32 word\<close>.
\<close>

definition TARGET_RISCV32 :: "'a::len itself \<Rightarrow> bool" where
  "TARGET_RISCV32 t = (LENGTH('a) = 32)"

definition TARGET_RISCV64 :: "'a::len itself \<Rightarrow> bool" where
  "TARGET_RISCV64 t = (LENGTH('a) = 64)"

subsection \<open>Bit-field macros and constants\<close>

text \<open>
  Modelled from the spec: the header \<^verbatim>\<open>cpu_bits.h\<close> that declares the macros
  \<^verbatim>\<open>get_field\<close> and \<^verbatim>\<open>set_field\<close>, the privilege levels, the CSR numbers and the
  bit masks is not among the sources. The spec fixes all of them to the published RISC-V
  privileged architecture (versions 1.9.1 and 1.10), whose values are used here.

  \<^verbatim>\<open>get_field(reg, mask)\<close> is \<^verbatim>\<open>(reg & mask) / (mask & ~(mask << 1))\<close> and
  \<^verbatim>\<open>set_field(reg, mask, val)\<close> is
  \<^verbatim>\<open>(reg & ~mask) | ((val * (mask & ~(mask << 1))) & mask)\<close>.
\<close>

definition get_field :: "'b::ring_bit_operations \<Rightarrow> 'b \<Rightarrow> 'b" where
  "get_field reg msk = (reg AND msk) div (msk AND NOT (push_bit 1 msk))"

definition set_field :: "'b::ring_bit_operations \<Rightarrow> 'b \<Rightarrow> 'b \<Rightarrow> 'b" where
  "set_field reg msk val =
     (reg AND NOT msk) OR ((val * (msk AND NOT (push_bit 1 msk))) AND msk)"

definition PRV_U :: "'a::len word" where "PRV_U = 0"
definition PRV_S :: "'a::len word" where "PRV_S = 1"
definition PRV_H :: "'a::len word" where "PRV_H = 2"
definition PRV_M :: "'a::len word" where "PRV_M = 3"

definition PRIV_VERSION_1_09_1 :: "'a::len word" where "PRIV_VERSION_1_09_1 = 0x00010901"
definition PRIV_VERSION_1_10_0 :: "'a::len word" where "PRIV_VERSION_1_10_0 = 0x00011000"

text \<open>\<^verbatim>\<open>RV(x)\<close> of cpu.h is \<^verbatim>\<open>1 << (x - 'A')\<close>; \<^verbatim>\<open>'S' - 'A'\<close> is 18 and \<^verbatim>\<open>'U' - 'A'\<close> is 20.\<close>

definition RVS :: "'a::len word" where "RVS = push_bit 18 1"
definition RVU :: "'a::len word" where "RVU = push_bit 20 1"

definition FSR_RD_SHIFT :: nat where "FSR_RD_SHIFT = 5"
definition FSR_RD :: "'a::len word" where "FSR_RD = push_bit FSR_RD_SHIFT 0x7"
definition FSR_AEXC_SHIFT :: nat where "FSR_AEXC_SHIFT = 0"
definition FSR_AEXC :: "'a::len word" where "FSR_AEXC = push_bit FSR_AEXC_SHIFT 0x1F"

definition MIP_SSIP :: "'a::len word" where "MIP_SSIP = push_bit 1 1"
definition MIP_MSIP :: "'a::len word" where "MIP_MSIP = push_bit 3 1"
definition MIP_STIP :: "'a::len word" where "MIP_STIP = push_bit 5 1"
definition MIP_MTIP :: "'a::len word" where "MIP_MTIP = push_bit 7 1"
definition MIP_SEIP :: "'a::len word" where "MIP_SEIP = push_bit 9 1"

definition MSTATUS_UIE :: "'a::len word" where "MSTATUS_UIE = 0x00000001"
definition MSTATUS_SIE :: "'a::len word" where "MSTATUS_SIE = 0x00000002"
definition MSTATUS_MIE :: "'a::len word" where "MSTATUS_MIE = 0x00000008"
definition MSTATUS_UPIE :: "'a::len word" where "MSTATUS_UPIE = 0x00000010"
definition MSTATUS_SPIE :: "'a::len word" where "MSTATUS_SPIE = 0x00000020"
definition MSTATUS_MPIE :: "'a::len word" where "MSTATUS_MPIE = 0x00000080"
definition MSTATUS_SPP :: "'a::len word" where "MSTATUS_SPP = 0x00000100"
definition MSTATUS_MPP :: "'a::len word" where "MSTATUS_MPP = 0x00001800"
definition MSTATUS_FS :: "'a::len word" where "MSTATUS_FS = 0x00006000"
definition MSTATUS_XS :: "'a::len word" where "MSTATUS_XS = 0x00018000"
definition MSTATUS_MPRV :: "'a::len word" where "MSTATUS_MPRV = 0x00020000"
definition MSTATUS_SUM :: "'a::len word" where "MSTATUS_SUM = 0x00040000"
definition MSTATUS_MXR :: "'a::len word" where "MSTATUS_MXR = 0x00080000"
definition MSTATUS_VM :: "'a::len word" where "MSTATUS_VM = 0x1F000000"
definition MSTATUS32_SD :: "'a::len word" where "MSTATUS32_SD = 0x80000000"
definition MSTATUS64_SD :: "'a::len word" where "MSTATUS64_SD = 0x8000000000000000"
definition MSTATUS_SD :: "'a::len word" where
  "MSTATUS_SD = (if TARGET_RISCV32 TYPE('a) then MSTATUS32_SD else MSTATUS64_SD)"

definition SSTATUS_UIE :: "'a::len word" where "SSTATUS_UIE = 0x00000001"
definition SSTATUS_SIE :: "'a::len word" where "SSTATUS_SIE = 0x00000002"
definition SSTATUS_UPIE :: "'a::len word" where "SSTATUS_UPIE = 0x00000010"
definition SSTATUS_SPIE :: "'a::len word" where "SSTATUS_SPIE = 0x00000020"
definition SSTATUS_SPP :: "'a::len word" where "SSTATUS_SPP = 0x00000100"
definition SSTATUS_FS :: "'a::len word" where "SSTATUS_FS = 0x00006000"
definition SSTATUS_XS :: "'a::len word" where "SSTATUS_XS = 0x00018000"
definition SSTATUS_SUM :: "'a::len word" where "SSTATUS_SUM = 0x00040000"
definition SSTATUS_MXR :: "'a::len word" where "SSTATUS_MXR = 0x00080000"
definition SSTATUS_SD :: "'a::len word" where
  "SSTATUS_SD = (if TARGET_RISCV32 TYPE('a) then 0x80000000 else 0x8000000000000000)"

definition SATP32_MODE :: "'a::len word" where "SATP32_MODE = 0x80000000"
definition SATP32_ASID :: "'a::len word" where "SATP32_ASID = 0x7fc00000"
definition SATP32_PPN :: "'a::len word" where "SATP32_PPN = 0x003fffff"
definition SATP64_MODE :: "'a::len word" where "SATP64_MODE = 0xF000000000000000"
definition SATP64_ASID :: "'a::len word" where "SATP64_ASID = 0x0FFFF00000000000"
definition SATP64_PPN :: "'a::len word" where "SATP64_PPN = 0x00000FFFFFFFFFFF"
definition SATP_MODE :: "'a::len word" where
  "SATP_MODE = (if TARGET_RISCV32 TYPE('a) then SATP32_MODE else SATP64_MODE)"
definition SATP_ASID :: "'a::len word" where
  "SATP_ASID = (if TARGET_RISCV32 TYPE('a) then SATP32_ASID else SATP64_ASID)"
definition SATP_PPN :: "'a::len word" where
  "SATP_PPN = (if TARGET_RISCV32 TYPE('a) then SATP32_PPN else SATP64_PPN)"

definition VM_1_09_MBARE :: "'a::len word" where "VM_1_09_MBARE = 0"
definition VM_1_09_SV32 :: "'a::len word" where "VM_1_09_SV32 = 8"
definition VM_1_09_SV39 :: "'a::len word" where "VM_1_09_SV39 = 9"
definition VM_1_09_SV48 :: "'a::len word" where "VM_1_09_SV48 = 10"
definition VM_1_10_MBARE :: "'a::len word" where "VM_1_10_MBARE = 0"
definition VM_1_10_SV32 :: "'a::len word" where "VM_1_10_SV32 = 1"
definition VM_1_10_SV39 :: "'a::len word" where "VM_1_10_SV39 = 8"
definition VM_1_10_SV48 :: "'a::len word" where "VM_1_10_SV48 = 9"
definition VM_1_10_SV57 :: "'a::len word" where "VM_1_10_SV57 = 10"

definition PGSHIFT :: nat where "PGSHIFT = 12"

text \<open>\<^verbatim>\<open>TARGET_PHYS_ADDR_SPACE_BITS\<close> is in cpu.h: 34 on RV32, 50 on RV64.\<close>

definition TARGET_PHYS_ADDR_SPACE_BITS :: "'a::len itself \<Rightarrow> nat" where
  "TARGET_PHYS_ADDR_SPACE_BITS t = (if TARGET_RISCV32 t then 34 else 50)"

definition CSR_FFLAGS :: int where "CSR_FFLAGS = 0x001"
definition CSR_FRM :: int where "CSR_FRM = 0x002"
definition CSR_FCSR :: int where "CSR_FCSR = 0x003"
definition CSR_CYCLE :: int where "CSR_CYCLE = 0xc00"
definition CSR_TIME :: int where "CSR_TIME = 0xc01"
definition CSR_INSTRET :: int where "CSR_INSTRET = 0xc02"
definition CSR_HPMCOUNTER3 :: int where "CSR_HPMCOUNTER3 = 0xc03"
definition CSR_HPMCOUNTER31 :: int where "CSR_HPMCOUNTER31 = 0xc1f"
definition CSR_CYCLEH :: int where "CSR_CYCLEH = 0xc80"
definition CSR_TIMEH :: int where "CSR_TIMEH = 0xc81"
definition CSR_INSTRETH :: int where "CSR_INSTRETH = 0xc82"
definition CSR_HPMCOUNTER3H :: int where "CSR_HPMCOUNTER3H = 0xc83"
definition CSR_HPMCOUNTER31H :: int where "CSR_HPMCOUNTER31H = 0xc9f"
definition CSR_SSTATUS :: int where "CSR_SSTATUS = 0x100"
definition CSR_SIE :: int where "CSR_SIE = 0x104"
definition CSR_STVEC :: int where "CSR_STVEC = 0x105"
definition CSR_SCOUNTEREN :: int where "CSR_SCOUNTEREN = 0x106"
definition CSR_SSCRATCH :: int where "CSR_SSCRATCH = 0x140"
definition CSR_SEPC :: int where "CSR_SEPC = 0x141"
definition CSR_SCAUSE :: int where "CSR_SCAUSE = 0x142"
definition CSR_SBADADDR :: int where "CSR_SBADADDR = 0x143"
definition CSR_SIP :: int where "CSR_SIP = 0x144"
definition CSR_SATP :: int where "CSR_SATP = 0x180"
definition CSR_MSTATUS :: int where "CSR_MSTATUS = 0x300"
definition CSR_MISA :: int where "CSR_MISA = 0x301"
definition CSR_MEDELEG :: int where "CSR_MEDELEG = 0x302"
definition CSR_MIDELEG :: int where "CSR_MIDELEG = 0x303"
definition CSR_MIE :: int where "CSR_MIE = 0x304"
definition CSR_MTVEC :: int where "CSR_MTVEC = 0x305"
definition CSR_MCOUNTEREN :: int where "CSR_MCOUNTEREN = 0x306"
definition CSR_MUCOUNTEREN :: int where "CSR_MUCOUNTEREN = 0x320"
definition CSR_MSCOUNTEREN :: int where "CSR_MSCOUNTEREN = 0x321"
definition CSR_MHPMEVENT3 :: int where "CSR_MHPMEVENT3 = 0x323"
definition CSR_MHPMEVENT31 :: int where "CSR_MHPMEVENT31 = 0x33f"
definition CSR_MSCRATCH :: int where "CSR_MSCRATCH = 0x340"
definition CSR_MEPC :: int where "CSR_MEPC = 0x341"
definition CSR_MCAUSE :: int where "CSR_MCAUSE = 0x342"
definition CSR_MBADADDR :: int where "CSR_MBADADDR = 0x343"
definition CSR_MIP :: int where "CSR_MIP = 0x344"
definition CSR_PMPCFG0 :: int where "CSR_PMPCFG0 = 0x3a0"
definition CSR_PMPADDR0 :: int where "CSR_PMPADDR0 = 0x3b0"
definition CSR_PMPADDR9 :: int where "CSR_PMPADDR9 = 0x3b9"
definition CSR_PMPADDR15 :: int where "CSR_PMPADDR15 = 0x3bf"
definition CSR_MCYCLE :: int where "CSR_MCYCLE = 0xb00"
definition CSR_MINSTRET :: int where "CSR_MINSTRET = 0xb02"
definition CSR_MHPMCOUNTER3 :: int where "CSR_MHPMCOUNTER3 = 0xb03"
definition CSR_MHPMCOUNTER31 :: int where "CSR_MHPMCOUNTER31 = 0xb1f"
definition CSR_MCYCLEH :: int where "CSR_MCYCLEH = 0xb80"
definition CSR_MINSTRETH :: int where "CSR_MINSTRETH = 0xb82"
definition CSR_MHPMCOUNTER3H :: int where "CSR_MHPMCOUNTER3H = 0xb83"
definition CSR_MHPMCOUNTER31H :: int where "CSR_MHPMCOUNTER31H = 0xb9f"
definition CSR_MVENDORID :: int where "CSR_MVENDORID = 0xf11"
definition CSR_MARCHID :: int where "CSR_MARCHID = 0xf12"
definition CSR_MIMPID :: int where "CSR_MIMPID = 0xf13"
definition CSR_MHARTID :: int where "CSR_MHARTID = 0xf14"

subsection \<open>Hart state\<close>

text \<open>
  \<^verbatim>\<open>struct CPURISCVState\<close> of cpu.h, restricted to the fields csr.c reads or writes
  (the general and floating-point register files, the program counter, the HTIF and timer
  fields are not touched by any CSR accessor). Four fields stand for state the source
  reaches through helpers that are not among the sources:
  \<^item> \<open>fp_status\<close>: the accrued exception flags kept by the floating-point status,
    in the five-bit RISC-V encoding;
  \<^item> \<open>feature_mmu\<close>: what \<^verbatim>\<open>riscv_feature(env, RISCV_FEATURE_MMU)\<close> answers;
  \<^item> \<open>tlb_log\<close>: one entry per call of \<^verbatim>\<open>tlb_flush\<close>, holding the values of
    \<open>mstatus\<close>, \<open>sptbr\<close> and \<open>satp\<close> that the MMU can see at the moment of the call;
  \<^item> \<open>irq_log\<close>: one entry (mask, value) per call of
    \<^verbatim>\<open>riscv_set_local_interrupt\<close>.
  The PMP table \<^verbatim>\<open>pmp_table_t\<close> belongs to the PMP module; its type is the
  parameter \<open>'p\<close>.
\<close>

record (overloaded) ('a, 'p) CPURISCVState =
  frm :: "'a::len word"
  fp_status :: "5 word"
  mucounteren :: "32 word"
  priv_ver :: "'a word"
  misa :: "'a word"
  priv :: "'a word"
  mhartid :: "'a word"
  mstatus :: "'a word"
  mip :: "'a word"
  mie :: "'a word"
  mideleg :: "'a word"
  sptbr :: "'a word"
  satp :: "'a word"
  sbadaddr :: "'a word"
  mbadaddr :: "'a word"
  medeleg :: "'a word"
  stvec :: "'a word"
  sepc :: "'a word"
  scause :: "'a word"
  mtvec :: "'a word"
  mepc :: "'a word"
  mcause :: "'a word"
  mscounteren :: "32 word"
  scounteren :: "'a word"
  mcounteren :: "'a word"
  sscratch :: "'a word"
  mscratch :: "'a word"
  pmp_state :: 'p
  feature_mmu :: bool
  tlb_log :: "('a word \<times> 'a word \<times> 'a word) list"
  irq_log :: "('a word \<times> 'a word) list"

text \<open>
  The collaborators csr.c calls and that are outside the sources: the host clock
  (\<^verbatim>\<open>use_icount\<close>, \<^verbatim>\<open>cpu_get_icount()\<close>, \<^verbatim>\<open>cpu_get_host_ticks()\<close>, as the values
  they have at the time of the access) and the four CSR entry points of the PMP module,
  which work on the PMP table. They are parameters of the model.
\<close>

record (overloaded) ('a, 'p) platform =
  use_icount :: bool
  cpu_get_icount :: "64 word"
  cpu_get_host_ticks :: "64 word"
  pmpcfg_csr_read :: "'p \<Rightarrow> int \<Rightarrow> 'a::len word"
  pmpcfg_csr_write :: "'p \<Rightarrow> int \<Rightarrow> 'a word \<Rightarrow> 'p"
  pmpaddr_csr_read :: "'p \<Rightarrow> int \<Rightarrow> 'a word"
  pmpaddr_csr_write :: "'p \<Rightarrow> int \<Rightarrow> 'a word \<Rightarrow> 'p"

text \<open>\<^verbatim>\<open>riscv_has_ext\<close> of cpu.h.\<close>

definition riscv_has_ext :: "('a::len, 'p) CPURISCVState \<Rightarrow> 'a word \<Rightarrow> bool" where
  "riscv_has_ext env ext = (misa env AND ext \<noteq> 0)"

text \<open>
  Modelled from the spec: \<^verbatim>\<open>riscv_feature\<close>, \<^verbatim>\<open>tlb_flush\<close>,
  \<^verbatim>\<open>cpu_riscv_get_fflags\<close>, \<^verbatim>\<open>cpu_riscv_set_fflags\<close> and
  \<^verbatim>\<open>riscv_set_local_interrupt\<close> are called by csr.c and defined elsewhere.
  The spec gives the MMU one fire-and-forget call (flush all translations), the
  floating-point unit \<open>get_fflags(env) \<rightarrow> u5\<close> and \<open>set_fflags(env, u5)\<close>, and the
  interrupt controller \<open>set_local_interrupt(hart, mask, value) \<rightarrow> prior\<close>, which
  atomically computes \<open>old = mip; mip = (mip & ~mask) | (value & mask)\<close>.
\<close>

definition riscv_feature_mmu :: "('a::len, 'p) CPURISCVState \<Rightarrow> bool" where
  "riscv_feature_mmu env = feature_mmu env"

definition tlb_flush :: "('a::len, 'p) CPURISCVState \<Rightarrow> ('a, 'p) CPURISCVState" where
  "tlb_flush env = env\<lparr>tlb_log := tlb_log env @ [(mstatus env, sptbr env, satp env)]\<rparr>"

definition cpu_riscv_get_fflags :: "('a::len, 'p) CPURISCVState \<Rightarrow> 'a word" where
  "cpu_riscv_get_fflags env = ucast (fp_status env)"

definition cpu_riscv_set_fflags ::
  "('a::len, 'p) CPURISCVState \<Rightarrow> 'a word \<Rightarrow> ('a, 'p) CPURISCVState" where
  "cpu_riscv_set_fflags env hard = env\<lparr>fp_status := ucast hard\<rparr>"

definition riscv_set_local_interrupt ::
  "('a::len, 'p) CPURISCVState \<Rightarrow> 'a word \<Rightarrow> 'a word \<Rightarrow> 'a word \<times> ('a, 'p) CPURISCVState" where
  "riscv_set_local_interrupt env msk val =
     (mip env,
      env\<lparr>mip := (mip env AND NOT msk) OR (val AND msk),
          irq_log := irq_log env @ [(msk, val)]\<rparr>)"

subsection \<open>Accessors\<close>

text \<open>
  A read accessor \<^verbatim>\<open>int f(env, csrno, target_ulong *val)\<close> is a function to
  \<open>int + 'a word\<close>: \<open>Inl r\<close> when it returns the negative status \<open>r\<close> and stores
  nothing, \<open>Inr v\<close> when it stores \<open>v\<close> through \<^verbatim>\<open>val\<close> and returns 0. No read
  accessor of the source assigns to a field of \<^verbatim>\<open>env\<close>. A write accessor returns
  its status and the hart state it leaves behind.
\<close>

type_synonym ('a, 'p) riscv_csr_read_fn =
  "('a, 'p) CPURISCVState \<Rightarrow> int \<Rightarrow> int + 'a word"
type_synonym ('a, 'p) riscv_csr_write_fn =
  "('a, 'p) CPURISCVState \<Rightarrow> int \<Rightarrow> 'a word \<Rightarrow> int \<times> ('a, 'p) CPURISCVState"

text \<open>
  The pointer \<^verbatim>\<open>target_ulong *ret_value\<close> is an \<open>'a word option\<close>: \<open>None\<close> is the
  null pointer, \<open>Some c\<close> a cell that holds \<open>c\<close>. A read-modify-write accessor returns
  its status, the cell after the call and the hart state.
\<close>

type_synonym ('a, 'p) riscv_csr_op_fn =
  "('a, 'p) CPURISCVState \<Rightarrow> int \<Rightarrow> 'a word option \<Rightarrow> 'a word \<Rightarrow> 'a word
     \<Rightarrow> int \<times> 'a word option \<times> ('a, 'p) CPURISCVState"

definition store_ret :: "'a word option \<Rightarrow> 'a word \<Rightarrow> 'a word option" where
  "store_ret ret_value v = (case ret_value of None \<Rightarrow> None | Some c \<Rightarrow> Some v)"

record (overloaded) ('a, 'p) riscv_csr_operations =
  read :: "('a::len, 'p) riscv_csr_read_fn option"
  write_fn :: "('a, 'p) riscv_csr_write_fn option"
  op :: "('a, 'p) riscv_csr_op_fn option"

subsubsection \<open>User floating-point CSRs\<close>

definition read_fflags :: "('a::len, 'p) riscv_csr_read_fn" where
  "read_fflags env csrno =
     (if mstatus env AND MSTATUS_FS = 0 then Inl (- 1)
      else Inr (cpu_riscv_get_fflags env))"

definition write_fflags :: "('a::len, 'p) riscv_csr_write_fn" where
  "write_fflags env csrno val =
     (if mstatus env AND MSTATUS_FS = 0 then (- 1, env)
      else
        let env = env\<lparr>mstatus := mstatus env OR MSTATUS_FS\<rparr>;
            env = cpu_riscv_set_fflags env (val AND drop_bit FSR_AEXC_SHIFT FSR_AEXC)
        in (0, env))"

definition read_frm :: "('a::len, 'p) riscv_csr_read_fn" where
  "read_frm env csrno =
     (if mstatus env AND MSTATUS_FS = 0 then Inl (- 1)
      else Inr (frm env))"

definition write_frm :: "('a::len, 'p) riscv_csr_write_fn" where
  "write_frm env csrno val =
     (if mstatus env AND MSTATUS_FS = 0 then (- 1, env)
      else
        let env = env\<lparr>mstatus := mstatus env OR MSTATUS_FS\<rparr>;
            env = env\<lparr>frm := val AND drop_bit FSR_RD_SHIFT FSR_RD\<rparr>
        in (0, env))"

definition read_fcsr :: "('a::len, 'p) riscv_csr_read_fn" where
  "read_fcsr env csrno =
     (if mstatus env AND MSTATUS_FS = 0 then Inl (- 1)
      else Inr (push_bit FSR_AEXC_SHIFT (cpu_riscv_get_fflags env)
                OR push_bit FSR_RD_SHIFT (frm env)))"

definition write_fcsr :: "('a::len, 'p) riscv_csr_write_fn" where
  "write_fcsr env csrno val =
     (if mstatus env AND MSTATUS_FS = 0 then (- 1, env)
      else
        let env = env\<lparr>mstatus := mstatus env OR MSTATUS_FS\<rparr>;
            env = env\<lparr>frm := drop_bit FSR_RD_SHIFT (val AND FSR_RD)\<rparr>;
            env = cpu_riscv_set_fflags env (drop_bit FSR_AEXC_SHIFT (val AND FSR_AEXC))
        in (0, env))"

subsubsection \<open>User timers and counters\<close>

text \<open>
  \<^verbatim>\<open>ctr_en\<close> is chosen among two \<^verbatim>\<open>uint32_t\<close> fields and \<^verbatim>\<open>-1U\<close>, then widened to
  \<^verbatim>\<open>target_ulong\<close>. The function returns \<^verbatim>\<open>(ctr_en >> (csrno & 31)) & 1\<close>.
\<close>

definition counter_enabled :: "('a::len, 'p) CPURISCVState \<Rightarrow> int \<Rightarrow> 'a word" where
  "counter_enabled env csrno =
     (let ctr_en :: 'a word =
            ucast (if priv env = PRV_U then mucounteren env
                   else if priv env = PRV_S then mscounteren env
                   else (- 1 :: 32 word))
      in drop_bit (nat (csrno AND 31)) ctr_en AND 1)"

definition read_zero_counter :: "('a::len, 'p) riscv_csr_read_fn" where
  "read_zero_counter env csrno =
     (if counter_enabled env csrno = 0 then Inl (- 1) else Inr 0)"

definition read_instret :: "('a::len, 'p) platform \<Rightarrow> ('a, 'p) riscv_csr_read_fn" where
  "read_instret h env csrno =
     (if counter_enabled env csrno = 0 then Inl (- 1)
      else if use_icount h then Inr (ucast (cpu_get_icount h))
      else Inr (ucast (cpu_get_host_ticks h)))"

definition read_instreth :: "('a::len, 'p) platform \<Rightarrow> ('a, 'p) riscv_csr_read_fn" where
  "read_instreth h env csrno =
     (if counter_enabled env csrno = 0 then Inl (- 1)
      else if use_icount h then Inr (ucast (drop_bit 32 (cpu_get_icount h)))
      else Inr (ucast (drop_bit 32 (cpu_get_host_ticks h))))"

subsubsection \<open>Machine constants\<close>

definition delegable_ints :: "'a::len word" where
  "delegable_ints = MIP_SSIP OR MIP_STIP OR MIP_SEIP"

definition all_ints :: "'a::len word" where
  "all_ints = MIP_SSIP OR MIP_STIP OR MIP_SEIP OR MIP_MSIP OR MIP_MTIP"

text \<open>
  The exception numbers \<^verbatim>\<open>RISCV_EXCP_*\<close> are 0 to 13 and 15 (store page fault);
  14 is reserved.
\<close>

definition delegable_excps :: "'a::len word" where
  "delegable_excps =
     push_bit 0 1 OR push_bit 1 1 OR push_bit 2 1 OR push_bit 3 1 OR
     push_bit 4 1 OR push_bit 5 1 OR push_bit 6 1 OR push_bit 7 1 OR
     push_bit 8 1 OR push_bit 9 1 OR push_bit 10 1 OR push_bit 11 1 OR
     push_bit 12 1 OR push_bit 13 1 OR push_bit 15 1"

definition sstatus_v1_9_mask :: "'a::len word" where
  "sstatus_v1_9_mask =
     SSTATUS_SIE OR SSTATUS_SPIE OR SSTATUS_UIE OR SSTATUS_UPIE OR SSTATUS_SPP OR
     SSTATUS_FS OR SSTATUS_XS OR SSTATUS_SUM OR SSTATUS_SD"

definition sstatus_v1_10_mask :: "'a::len word" where
  "sstatus_v1_10_mask =
     SSTATUS_SIE OR SSTATUS_SPIE OR SSTATUS_UIE OR SSTATUS_UPIE OR SSTATUS_SPP OR
     SSTATUS_FS OR SSTATUS_XS OR SSTATUS_SUM OR SSTATUS_MXR OR SSTATUS_SD"

text \<open>
  The tables \<^verbatim>\<open>valid_vm_1_09[16]\<close> and \<^verbatim>\<open>valid_vm_1_10[16]\<close>: the designated entries
  are 1, all others 0. They are only indexed with \<^verbatim>\<open>vm & 0xf\<close>.
\<close>

definition valid_vm_1_09 :: "'a::len word \<Rightarrow> int" where
  "valid_vm_1_09 i =
     (if TARGET_RISCV32 TYPE('a)
      then (if i = VM_1_09_MBARE \<or> i = VM_1_09_SV32 then 1 else 0)
      else (if i = VM_1_09_MBARE \<or> i = VM_1_09_SV39 \<or> i = VM_1_09_SV48 then 1 else 0))"

definition valid_vm_1_10 :: "'a::len word \<Rightarrow> int" where
  "valid_vm_1_10 i =
     (if TARGET_RISCV32 TYPE('a)
      then (if i = VM_1_10_MBARE \<or> i = VM_1_10_SV32 then 1 else 0)
      else (if i = VM_1_10_MBARE \<or> i = VM_1_10_SV39 \<or> i = VM_1_10_SV48 \<or>
               i = VM_1_10_SV57 then 1 else 0))"

subsubsection \<open>Machine information registers\<close>

definition read_zero :: "('a::len, 'p) riscv_csr_read_fn" where
  "read_zero env csrno = Inr 0"

definition read_mhartid :: "('a::len, 'p) riscv_csr_read_fn" where
  "read_mhartid env csrno = Inr (mhartid env)"

subsubsection \<open>Machine trap setup\<close>

definition read_mstatus :: "('a::len, 'p) riscv_csr_read_fn" where
  "read_mstatus env csrno = Inr (mstatus env)"

definition validate_vm :: "('a::len, 'p) CPURISCVState \<Rightarrow> 'a word \<Rightarrow> int" where
  "validate_vm env vm =
     (if priv_ver env \<ge> PRIV_VERSION_1_10_0
      then valid_vm_1_10 (vm AND 0xf) else valid_vm_1_09 (vm AND 0xf))"

definition write_mstatus :: "('a::len, 'p) riscv_csr_write_fn" where
  "write_mstatus env csrno val =
     (let mstatus0 = mstatus env;
          msk = 0;
          mpp = get_field val MSTATUS_MPP;
          (env, msk) =
            (if priv_ver env \<le> PRIV_VERSION_1_09_1 then
               (if (val XOR mstatus0) AND (MSTATUS_MXR OR MSTATUS_MPP OR
                     MSTATUS_MPRV OR MSTATUS_SUM OR MSTATUS_VM) \<noteq> 0
                then tlb_flush env else env,
                MSTATUS_SIE OR MSTATUS_SPIE OR MSTATUS_MIE OR MSTATUS_MPIE OR
                MSTATUS_SPP OR MSTATUS_FS OR MSTATUS_MPRV OR MSTATUS_SUM OR
                MSTATUS_MPP OR MSTATUS_MXR OR
                (if validate_vm env (get_field val MSTATUS_VM) \<noteq> 0
                 then MSTATUS_VM else 0))
             else (env, msk));
          (env, msk) =
            (if priv_ver env \<ge> PRIV_VERSION_1_10_0 then
               (if (val XOR mstatus0) AND (MSTATUS_MXR OR MSTATUS_MPP OR
                     MSTATUS_MPRV OR MSTATUS_SUM) \<noteq> 0
                then tlb_flush env else env,
                MSTATUS_SIE OR MSTATUS_SPIE OR MSTATUS_MIE OR MSTATUS_MPIE OR
                MSTATUS_SPP OR MSTATUS_FS OR MSTATUS_MPRV OR MSTATUS_SUM OR
                MSTATUS_MPP OR MSTATUS_MXR)
             else (env, msk));
          msk = (if mpp = PRV_H \<or>
                    (\<not> riscv_has_ext env RVS \<and> mpp = PRV_S) \<or>
                    (\<not> riscv_has_ext env RVU \<and> mpp = PRV_U)
                 then msk AND NOT MSTATUS_MPP else msk);
          mstatus1 = (mstatus0 AND NOT msk) OR (val AND msk);
          mstatus2 = (if mstatus1 AND MSTATUS_FS \<noteq> 0
                      then mstatus1 OR MSTATUS_FS else mstatus1);
          dirty = of_bool (mstatus2 AND MSTATUS_FS = MSTATUS_FS) OR
                  of_bool (mstatus2 AND MSTATUS_XS = MSTATUS_XS);
          mstatus3 = set_field mstatus2 MSTATUS_SD dirty
      in (0, env\<lparr>mstatus := mstatus3\<rparr>))"

definition read_misa :: "('a::len, 'p) riscv_csr_read_fn" where
  "read_misa env csrno = Inr (misa env)"

definition read_medeleg :: "('a::len, 'p) riscv_csr_read_fn" where
  "read_medeleg env csrno = Inr (medeleg env)"

definition write_medeleg :: "('a::len, 'p) riscv_csr_write_fn" where
  "write_medeleg env csrno val =
     (0, env\<lparr>medeleg := (medeleg env AND NOT delegable_excps) OR (val AND delegable_excps)\<rparr>)"

definition read_mideleg :: "('a::len, 'p) riscv_csr_read_fn" where
  "read_mideleg env csrno = Inr (mideleg env)"

definition write_mideleg :: "('a::len, 'p) riscv_csr_write_fn" where
  "write_mideleg env csrno val =
     (0, env\<lparr>mideleg := (mideleg env AND NOT delegable_ints) OR (val AND delegable_ints)\<rparr>)"

definition read_mie :: "('a::len, 'p) riscv_csr_read_fn" where
  "read_mie env csrno = Inr (mie env)"

definition write_mie :: "('a::len, 'p) riscv_csr_write_fn" where
  "write_mie env csrno val =
     (0, env\<lparr>mie := (mie env AND NOT all_ints) OR (val AND all_ints)\<rparr>)"

definition read_mtvec :: "('a::len, 'p) riscv_csr_read_fn" where
  "read_mtvec env csrno = Inr (mtvec env)"

definition write_mtvec :: "('a::len, 'p) riscv_csr_write_fn" where
  "write_mtvec env csrno val =
     (if val AND 3 = 0 then (0, env\<lparr>mtvec := push_bit 2 (drop_bit 2 val)\<rparr>)
      else (0, env))"

definition read_mcounteren :: "('a::len, 'p) riscv_csr_read_fn" where
  "read_mcounteren env csrno =
     (if priv_ver env < PRIV_VERSION_1_10_0 then Inl (- 1)
      else Inr (mcounteren env))"

definition write_mcounteren :: "('a::len, 'p) riscv_csr_write_fn" where
  "write_mcounteren env csrno val =
     (if priv_ver env < PRIV_VERSION_1_10_0 then (- 1, env)
      else (0, env\<lparr>mcounteren := val\<rparr>))"

definition read_mscounteren :: "('a::len, 'p) riscv_csr_read_fn" where
  "read_mscounteren env csrno =
     (if priv_ver env > PRIV_VERSION_1_09_1 then Inl (- 1)
      else Inr (mcounteren env))"

definition write_mscounteren :: "('a::len, 'p) riscv_csr_write_fn" where
  "write_mscounteren env csrno val =
     (if priv_ver env > PRIV_VERSION_1_09_1 then (- 1, env)
      else (0, env\<lparr>mcounteren := val\<rparr>))"

definition read_mucounteren :: "('a::len, 'p) riscv_csr_read_fn" where
  "read_mucounteren env csrno =
     (if priv_ver env > PRIV_VERSION_1_09_1 then Inl (- 1)
      else Inr (scounteren env))"

definition write_mucounteren :: "('a::len, 'p) riscv_csr_write_fn" where
  "write_mucounteren env csrno val =
     (if priv_ver env > PRIV_VERSION_1_09_1 then (- 1, env)
      else (0, env\<lparr>scounteren := val\<rparr>))"

subsubsection \<open>Machine trap handling\<close>

definition read_mscratch :: "('a::len, 'p) riscv_csr_read_fn" where
  "read_mscratch env csrno = Inr (mscratch env)"

definition write_mscratch :: "('a::len, 'p) riscv_csr_write_fn" where
  "write_mscratch env csrno val = (0, env\<lparr>mscratch := val\<rparr>)"

definition read_mepc :: "('a::len, 'p) riscv_csr_read_fn" where
  "read_mepc env csrno = Inr (mepc env)"

definition write_mepc :: "('a::len, 'p) riscv_csr_write_fn" where
  "write_mepc env csrno val = (0, env\<lparr>mepc := val\<rparr>)"

definition read_mcause :: "('a::len, 'p) riscv_csr_read_fn" where
  "read_mcause env csrno = Inr (mcause env)"

definition write_mcause :: "('a::len, 'p) riscv_csr_write_fn" where
  "write_mcause env csrno val = (0, env\<lparr>mcause := val\<rparr>)"

definition read_mbadaddr :: "('a::len, 'p) riscv_csr_read_fn" where
  "read_mbadaddr env csrno = Inr (mbadaddr env)"

definition write_mbadaddr :: "('a::len, 'p) riscv_csr_write_fn" where
  "write_mbadaddr env csrno val = (0, env\<lparr>mbadaddr := val\<rparr>)"

text \<open>
  \<^verbatim>\<open>old_mip\<close> is a \<^verbatim>\<open>uint32_t\<close>: the prior value of \<^verbatim>\<open>mip\<close> is cut to 32 bits
  before it is stored through \<^verbatim>\<open>ret_value\<close>.
\<close>

definition rmw_mip :: "('a::len, 'p) riscv_csr_op_fn" where
  "rmw_mip env csrno ret_value new_value write_mask =
     (let msk = write_mask AND delegable_ints;
          msk = msk AND NOT MIP_SEIP;
          (old_mip :: 32 word, env) =
            (if msk \<noteq> 0 then
               (case riscv_set_local_interrupt env msk (new_value AND msk) of
                  (old, env') \<Rightarrow> (ucast old, env'))
             else (ucast (mip env), env))
      in (0, store_ret ret_value (ucast old_mip), env))"

subsubsection \<open>Supervisor trap setup\<close>

definition read_sstatus :: "('a::len, 'p) riscv_csr_read_fn" where
  "read_sstatus env csrno =
     (let msk = (if priv_ver env \<ge> PRIV_VERSION_1_10_0
                 then sstatus_v1_10_mask else sstatus_v1_9_mask)
      in Inr (mstatus env AND msk))"

definition write_sstatus :: "('a::len, 'p) riscv_csr_write_fn" where
  "write_sstatus env csrno val =
     (let msk = (if priv_ver env \<ge> PRIV_VERSION_1_10_0
                 then sstatus_v1_10_mask else sstatus_v1_9_mask);
          newval = (mstatus env AND NOT msk) OR (val AND msk)
      in write_mstatus env CSR_MSTATUS newval)"

definition read_sie :: "('a::len, 'p) riscv_csr_read_fn" where
  "read_sie env csrno = Inr (mie env AND mideleg env)"

definition write_sie :: "('a::len, 'p) riscv_csr_write_fn" where
  "write_sie env csrno val =
     (let newval = (mie env AND NOT (mideleg env)) OR (val AND mideleg env)
      in write_mie env CSR_MIE newval)"

definition read_stvec :: "('a::len, 'p) riscv_csr_read_fn" where
  "read_stvec env csrno = Inr (stvec env)"

definition write_stvec :: "('a::len, 'p) riscv_csr_write_fn" where
  "write_stvec env csrno val =
     (if val AND 3 = 0 then (0, env\<lparr>stvec := push_bit 2 (drop_bit 2 val)\<rparr>)
      else (0, env))"

definition read_scounteren :: "('a::len, 'p) riscv_csr_read_fn" where
  "read_scounteren env csrno =
     (if priv_ver env < PRIV_VERSION_1_10_0 then Inl (- 1)
      else Inr (scounteren env))"

definition write_scounteren :: "('a::len, 'p) riscv_csr_write_fn" where
  "write_scounteren env csrno val =
     (if priv_ver env < PRIV_VERSION_1_10_0 then (- 1, env)
      else (0, env\<lparr>scounteren := val\<rparr>))"

subsubsection \<open>Supervisor trap handling\<close>

definition read_sscratch :: "('a::len, 'p) riscv_csr_read_fn" where
  "read_sscratch env csrno = Inr (sscratch env)"

definition write_sscratch :: "('a::len, 'p) riscv_csr_write_fn" where
  "write_sscratch env csrno val = (0, env\<lparr>sscratch := val\<rparr>)"

definition read_sepc :: "('a::len, 'p) riscv_csr_read_fn" where
  "read_sepc env csrno = Inr (sepc env)"

definition write_sepc :: "('a::len, 'p) riscv_csr_write_fn" where
  "write_sepc env csrno val = (0, env\<lparr>sepc := val\<rparr>)"

definition read_scause :: "('a::len, 'p) riscv_csr_read_fn" where
  "read_scause env csrno = Inr (scause env)"

definition write_scause :: "('a::len, 'p) riscv_csr_write_fn" where
  "write_scause env csrno val = (0, env\<lparr>scause := val\<rparr>)"

definition read_sbadaddr :: "('a::len, 'p) riscv_csr_read_fn" where
  "read_sbadaddr env csrno = Inr (sbadaddr env)"

definition write_sbadaddr :: "('a::len, 'p) riscv_csr_write_fn" where
  "write_sbadaddr env csrno val = (0, env\<lparr>sbadaddr := val\<rparr>)"

definition rmw_sip :: "('a::len, 'p) riscv_csr_op_fn" where
  "rmw_sip env csrno ret_value new_value write_mask =
     rmw_mip env CSR_MSTATUS ret_value new_value (write_mask AND mideleg env)"

subsubsection \<open>Supervisor protection and translation\<close>

definition read_satp :: "('a::len, 'p) riscv_csr_read_fn" where
  "read_satp env csrno =
     (if \<not> riscv_feature_mmu env then Inr 0
      else if priv_ver env \<ge> PRIV_VERSION_1_10_0 then Inr (satp env)
      else Inr (sptbr env))"

definition write_satp :: "('a::len, 'p) riscv_csr_write_fn" where
  "write_satp env csrno val =
     (if \<not> riscv_feature_mmu env then (0, env)
      else
        let env =
              (if priv_ver env \<le> PRIV_VERSION_1_09_1 \<and> val XOR sptbr env \<noteq> 0 then
                 let env = tlb_flush env
                 in env\<lparr>sptbr := val AND
                      (push_bit (TARGET_PHYS_ADDR_SPACE_BITS TYPE('a) - PGSHIFT) 1 - 1)\<rparr>
               else env);
            env =
              (if priv_ver env \<ge> PRIV_VERSION_1_10_0 \<and>
                  validate_vm env (get_field val SATP_MODE) \<noteq> 0 \<and>
                  (val XOR satp env) AND (SATP_MODE OR SATP_ASID OR SATP_PPN) \<noteq> 0 then
                 let env = tlb_flush env
                 in env\<lparr>satp := val\<rparr>
               else env)
        in (0, env))"

subsubsection \<open>Physical memory protection\<close>

definition read_pmpcfg :: "('a::len, 'p) platform \<Rightarrow> ('a, 'p) riscv_csr_read_fn" where
  "read_pmpcfg h env csrno = Inr (pmpcfg_csr_read h (pmp_state env) (csrno - CSR_PMPCFG0))"

definition write_pmpcfg :: "('a::len, 'p) platform \<Rightarrow> ('a, 'p) riscv_csr_write_fn" where
  "write_pmpcfg h env csrno val =
     (0, env\<lparr>pmp_state := pmpcfg_csr_write h (pmp_state env) (csrno - CSR_PMPCFG0) val\<rparr>)"

definition read_pmpaddr :: "('a::len, 'p) platform \<Rightarrow> ('a, 'p) riscv_csr_read_fn" where
  "read_pmpaddr h env csrno = Inr (pmpaddr_csr_read h (pmp_state env) (csrno - CSR_PMPADDR0))"

definition write_pmpaddr :: "('a::len, 'p) platform \<Rightarrow> ('a, 'p) riscv_csr_write_fn" where
  "write_pmpaddr h env csrno val =
     (0, env\<lparr>pmp_state := pmpaddr_csr_write h (pmp_state env) (csrno - CSR_PMPADDR0) val\<rparr>)"

subsection \<open>The accessor table\<close>

text \<open>
  \<^verbatim>\<open>csr_ops[0xfff]\<close> is an array of 0xfff elements (indices 0 to 0xffe) filled by
  designated initialisers; an element that no initialiser names is all null pointers, and
  where two initialisers name the same index the later one stands (the range
  \<^verbatim>\<open>[CSR_PMPCFG0 ... CSR_PMPADDR9]\<close> overlaps \<^verbatim>\<open>[CSR_PMPADDR0 ... CSR_PMPADDR15]\<close>).
  The initialisers are listed in the order of the source, each with the first and last
  index it names.
\<close>

definition no_ops :: "('a::len, 'p) riscv_csr_operations" where
  "no_ops = \<lparr>read = None, write_fn = None, op = None\<rparr>"

definition rd_only :: "('a::len, 'p) riscv_csr_read_fn \<Rightarrow> ('a, 'p) riscv_csr_operations" where
  "rd_only r = \<lparr>read = Some r, write_fn = None, op = None\<rparr>"

definition rd_wr ::
  "('a::len, 'p) riscv_csr_read_fn \<Rightarrow> ('a, 'p) riscv_csr_write_fn
     \<Rightarrow> ('a, 'p) riscv_csr_operations" where
  "rd_wr r w = \<lparr>read = Some r, write_fn = Some w, op = None\<rparr>"

definition op_only :: "('a::len, 'p) riscv_csr_op_fn \<Rightarrow> ('a, 'p) riscv_csr_operations" where
  "op_only f = \<lparr>read = None, write_fn = None, op = Some f\<rparr>"

definition csr_ops_init ::
  "('a::len, 'p) platform \<Rightarrow> (int \<times> int \<times> ('a, 'p) riscv_csr_operations) list" where
  "csr_ops_init h =
     [(CSR_FFLAGS, CSR_FFLAGS, rd_wr read_fflags write_fflags),
      (CSR_FRM, CSR_FRM, rd_wr read_frm write_frm),
      (CSR_FCSR, CSR_FCSR, rd_wr read_fcsr write_fcsr),
      (CSR_CYCLE, CSR_CYCLE, rd_only (read_instret h)),
      (CSR_INSTRET, CSR_INSTRET, rd_only (read_instret h))] @
     (if TARGET_RISCV32 TYPE('a) then
        [(CSR_CYCLEH, CSR_CYCLEH, rd_only (read_instreth h)),
         (CSR_INSTRETH, CSR_INSTRETH, rd_only (read_instreth h))]
      else []) @
     [(CSR_MCYCLE, CSR_MCYCLE, rd_only (read_instret h)),
      (CSR_MINSTRET, CSR_MINSTRET, rd_only (read_instret h))] @
     (if TARGET_RISCV32 TYPE('a) then
        [(CSR_MCYCLEH, CSR_MCYCLEH, rd_only (read_instreth h)),
         (CSR_MINSTRETH, CSR_MINSTRETH, rd_only (read_instreth h))]
      else []) @
     [(CSR_MVENDORID, CSR_MVENDORID, rd_only read_zero),
      (CSR_MARCHID, CSR_MARCHID, rd_only read_zero),
      (CSR_MIMPID, CSR_MIMPID, rd_only read_zero),
      (CSR_MHARTID, CSR_MHARTID, rd_only read_mhartid),
      (CSR_MSTATUS, CSR_MSTATUS, rd_wr read_mstatus write_mstatus),
      (CSR_MISA, CSR_MISA, rd_only read_misa),
      (CSR_MIDELEG, CSR_MIDELEG, rd_wr read_mideleg write_mideleg),
      (CSR_MEDELEG, CSR_MEDELEG, rd_wr read_medeleg write_medeleg),
      (CSR_MIE, CSR_MIE, rd_wr read_mie write_mie),
      (CSR_MTVEC, CSR_MTVEC, rd_wr read_mtvec write_mtvec),
      (CSR_MCOUNTEREN, CSR_MCOUNTEREN, rd_wr read_mcounteren write_mcounteren),
      (CSR_MUCOUNTEREN, CSR_MUCOUNTEREN, rd_wr read_mucounteren write_mucounteren),
      (CSR_MSCOUNTEREN, CSR_MSCOUNTEREN, rd_wr read_mscounteren write_mscounteren),
      (CSR_MSCRATCH, CSR_MSCRATCH, rd_wr read_mscratch write_mscratch),
      (CSR_MEPC, CSR_MEPC, rd_wr read_mepc write_mepc),
      (CSR_MCAUSE, CSR_MCAUSE, rd_wr read_mcause write_mcause),
      (CSR_MBADADDR, CSR_MBADADDR, rd_wr read_mbadaddr write_mbadaddr),
      (CSR_MIP, CSR_MIP, op_only rmw_mip),
      (CSR_SSTATUS, CSR_SSTATUS, rd_wr read_sstatus write_sstatus),
      (CSR_SIE, CSR_SIE, rd_wr read_sie write_sie),
      (CSR_STVEC, CSR_STVEC, rd_wr read_stvec write_stvec),
      (CSR_SCOUNTEREN, CSR_SCOUNTEREN, rd_wr read_scounteren write_scounteren),
      (CSR_SSCRATCH, CSR_SSCRATCH, rd_wr read_sscratch write_sscratch),
      (CSR_SEPC, CSR_SEPC, rd_wr read_sepc write_sepc),
      (CSR_SCAUSE, CSR_SCAUSE, rd_wr read_scause write_scause),
      (CSR_SBADADDR, CSR_SBADADDR, rd_wr read_sbadaddr write_sbadaddr),
      (CSR_SIP, CSR_SIP, op_only rmw_sip),
      (CSR_SATP, CSR_SATP, rd_wr read_satp write_satp),
      (CSR_PMPCFG0, CSR_PMPADDR9, rd_wr (read_pmpcfg h) (write_pmpcfg h)),
      (CSR_PMPADDR0, CSR_PMPADDR15, rd_wr (read_pmpaddr h) (write_pmpaddr h)),
      (CSR_HPMCOUNTER3, CSR_HPMCOUNTER31, rd_only read_zero_counter),
      (CSR_MHPMCOUNTER3, CSR_MHPMCOUNTER31, rd_only read_zero),
      (CSR_MHPMEVENT3, CSR_MHPMEVENT31, rd_only read_zero)] @
     (if TARGET_RISCV32 TYPE('a) then
        [(CSR_HPMCOUNTER3H, CSR_HPMCOUNTER31H, rd_only read_zero_counter),
         (CSR_MHPMCOUNTER3H, CSR_MHPMCOUNTER31H, rd_only read_zero)]
      else [])"

text \<open>The element at index \<open>i\<close> after the initialisers \<open>xs\<close> are applied to \<open>d\<close>.\<close>

fun designated :: "(int \<times> int \<times> 'v) list \<Rightarrow> int \<Rightarrow> 'v \<Rightarrow> 'v" where
  "designated [] i d = d"
| "designated ((lo, hi, v) # xs) i d =
     designated xs i (if lo \<le> i \<and> i \<le> hi then v else d)"

text \<open>
  \<^verbatim>\<open>csr_ops[csrno]\<close>. An index outside the array is \<open>None\<close>: the source reads past
  the end of the array there, and nothing is known about what it finds.
\<close>

definition csr_ops ::
  "('a::len, 'p) platform \<Rightarrow> int \<Rightarrow> ('a, 'p) riscv_csr_operations option" where
  "csr_ops h csrno =
     (if 0 \<le> csrno \<and> csrno < 0xfff then Some (designated (csr_ops_init h) csrno no_ops)
      else None)"

subsection \<open>The access gate\<close>

text \<open>
  \<^verbatim>\<open>riscv_csrrw\<close> returns \<open>Some (ret, cell, env)\<close>: its status, the cell behind
  \<^verbatim>\<open>ret_value\<close> and the hart state after the call; or \<open>None\<close> when it indexes
  \<^verbatim>\<open>csr_ops\<close> outside the array. \<^verbatim>\<open>csr_priv\<close> and \<^verbatim>\<open>read_only\<close> are computed on
  the \<^verbatim>\<open>int csrno\<close>, and \<^verbatim>\<open>env->priv < csr_priv\<close> compares as \<^verbatim>\<open>target_ulong\<close>.
\<close>

definition riscv_csrrw ::
  "('a::len, 'p) platform \<Rightarrow> ('a, 'p) CPURISCVState \<Rightarrow> int \<Rightarrow> 'a word option \<Rightarrow>
     'a word \<Rightarrow> 'a word \<Rightarrow> (int \<times> 'a word option \<times> ('a, 'p) CPURISCVState) option" where
  "riscv_csrrw h env csrno ret_value new_value write_mask =
     (let csr_priv = get_field csrno 0x300;
          read_only = (get_field csrno 0xC00 = 3)
      in
      if (write_mask \<noteq> 0 \<and> read_only) \<or> priv env < word_of_int csr_priv
      then Some (- 1, ret_value, env)
      else
        case csr_ops h csrno of
          None \<Rightarrow> None
        | Some ops \<Rightarrow>
           (case op ops of
              Some f \<Rightarrow> Some (f env csrno ret_value new_value write_mask)
            | None \<Rightarrow>
               (case read ops of
                  None \<Rightarrow> Some (- 1, ret_value, env)
                | Some rd \<Rightarrow>
                   (case rd env csrno of
                      Inl ret \<Rightarrow> Some (ret, ret_value, env)
                    | Inr old_value \<Rightarrow>
                       if write_mask \<noteq> 0 then
                         let new_value = (old_value AND NOT write_mask) OR
                                         (new_value AND write_mask)
                         in (case write_fn ops of
                               Some wr \<Rightarrow>
                                (case wr env csrno new_value of
                                   (ret, env') \<Rightarrow>
                                     if ret < 0 then Some (ret, ret_value, env')
                                     else Some (0, store_ret ret_value old_value, env'))
                             | None \<Rightarrow> Some (0, store_ret ret_value old_value, env))
                       else Some (0, store_ret ret_value old_value, env)))))"

subsection \<open>Example hart\<close>

text \<open>
  An RV64 hart under privilege spec 1.10 with the S and U extensions and an MMU, in
  machine mode with all registers zero, and a platform whose PMP module ignores writes.
\<close>

definition example_hart :: "(64, unit) CPURISCVState" where
  "example_hart =
     \<lparr>frm = 0, fp_status = 0, mucounteren = 0, priv_ver = PRIV_VERSION_1_10_0,
      misa = RVS OR RVU, priv = PRV_M, mhartid = 0, mstatus = 0, mip = 0, mie = 0,
      mideleg = 0, sptbr = 0, satp = 0, sbadaddr = 0, mbadaddr = 0, medeleg = 0,
      stvec = 0, sepc = 0, scause = 0, mtvec = 0, mepc = 0, mcause = 0,
      mscounteren = 0, scounteren = 0, mcounteren = 0, sscratch = 0, mscratch = 0,
      pmp_state = (), feature_mmu = True, tlb_log = [], irq_log = []\<rparr>"

definition example_platform :: "(64, unit) platform" where
  "example_platform =
     \<lparr>use_icount = False, cpu_get_icount = 0, cpu_get_host_ticks = 0x123456789,
      pmpcfg_csr_read = (\<lambda>p i. 0), pmpcfg_csr_write = (\<lambda>p i v. p),
      pmpaddr_csr_read = (\<lambda>p i. 0), pmpaddr_csr_write = (\<lambda>p i v. p)\<rparr>"

text \<open>The write accessors that occur in the table.\<close>

definition csr_writers :: "('a::len, 'p) platform \<Rightarrow> ('a, 'p) riscv_csr_write_fn set" where
  "csr_writers h =
     {write_fflags, write_frm, write_fcsr, write_mstatus, write_mideleg, write_medeleg,
      write_mie, write_mtvec, write_mcounteren, write_mucounteren, write_mscounteren,
      write_mscratch, write_mepc, write_mcause, write_mbadaddr, write_sstatus, write_sie,
      write_stvec, write_scounteren, write_sscratch, write_sepc, write_scause,
      write_sbadaddr, write_satp, write_pmpcfg h, write_pmpaddr h}"

text \<open>
  The counter CSR numbers: \<^verbatim>\<open>cycle\<close>, \<^verbatim>\<open>instret\<close>, \<^verbatim>\<open>hpmcounter3..31\<close>, their
  machine-mode counterparts, and on RV32 the high halves of all of these.
\<close>

definition counter_csr :: "'a::len itself \<Rightarrow> int \<Rightarrow> bool" where
  "counter_csr t csrno \<longleftrightarrow>
     csrno = CSR_CYCLE \<or> csrno = CSR_INSTRET \<or>
     (CSR_HPMCOUNTER3 \<le> csrno \<and> csrno \<le> CSR_HPMCOUNTER31) \<or>
     csrno = CSR_MCYCLE \<or> csrno = CSR_MINSTRET \<or>
     (CSR_MHPMCOUNTER3 \<le> csrno \<and> csrno \<le> CSR_MHPMCOUNTER31) \<or>
     (TARGET_RISCV32 t \<and>
       (csrno = CSR_CYCLEH \<or> csrno = CSR_INSTRETH \<or>
        (CSR_HPMCOUNTER3H \<le> csrno \<and> csrno \<le> CSR_HPMCOUNTER31H) \<or>
        csrno = CSR_MCYCLEH \<or> csrno = CSR_MINSTRETH \<or>
        (CSR_MHPMCOUNTER3H \<le> csrno \<and> csrno \<le> CSR_MHPMCOUNTER31H)))"

text \<open>The read accessors that occur in the table.\<close>

definition csr_readers :: "('a::len, 'p) platform \<Rightarrow> ('a, 'p) riscv_csr_read_fn set" where
  "csr_readers h =
     {read_fflags, read_frm, read_fcsr, read_instret h, read_instreth h, read_zero,
      read_mhartid, read_mstatus, read_misa, read_mideleg, read_medeleg, read_mie,
      read_mtvec, read_mcounteren, read_mucounteren, read_mscounteren, read_mscratch,
      read_mepc, read_mcause, read_mbadaddr, read_sstatus, read_sie, read_stvec,
      read_scounteren, read_sscratch, read_sepc, read_scause, read_sbadaddr, read_satp,
      read_pmpcfg h, read_pmpaddr h, read_zero_counter}"

text \<open>
  The valid \<^verbatim>\<open>satp.MODE\<close> values as the specification lists them: Bare and Sv32 on
  RV32; Bare, Sv39, Sv48 and Sv57 on RV64.
\<close>

definition satp_mode_valid :: "'a::len word \<Rightarrow> bool" where
  "satp_mode_valid mode \<longleftrightarrow>
     (if TARGET_RISCV32 TYPE('a)
      then mode = VM_1_10_MBARE \<or> mode = VM_1_10_SV32
      else mode = VM_1_10_MBARE \<or> mode = VM_1_10_SV39 \<or> mode = VM_1_10_SV48 \<or>
           mode = VM_1_10_SV57)"

subsection \<open>Parts of the status register write\<close>

text \<open>
  Two parts of \<^verbatim>\<open>write_mstatus\<close>, named for the proofs: the statements up to the
  computation of the write mask (with the TLB flushes they make), and the statements
  after the merge (FS snapped to Dirty, SD recomputed). \<open>write_mstatus_parts\<close> shows
  that \<open>write_mstatus\<close> is their composition.
\<close>

definition mstatus_flush_and_mask ::
  "('a::len, 'p) CPURISCVState \<Rightarrow> 'a word \<Rightarrow> ('a, 'p) CPURISCVState \<times> 'a word" where
  "mstatus_flush_and_mask env val =
     (let mstatus0 = mstatus env;
          msk = 0;
          mpp = get_field val MSTATUS_MPP;
          (env, msk) =
            (if priv_ver env \<le> PRIV_VERSION_1_09_1 then
               (if (val XOR mstatus0) AND (MSTATUS_MXR OR MSTATUS_MPP OR
                     MSTATUS_MPRV OR MSTATUS_SUM OR MSTATUS_VM) \<noteq> 0
                then tlb_flush env else env,
                MSTATUS_SIE OR MSTATUS_SPIE OR MSTATUS_MIE OR MSTATUS_MPIE OR
                MSTATUS_SPP OR MSTATUS_FS OR MSTATUS_MPRV OR MSTATUS_SUM OR
                MSTATUS_MPP OR MSTATUS_MXR OR
                (if validate_vm env (get_field val MSTATUS_VM) \<noteq> 0
                 then MSTATUS_VM else 0))
             else (env, msk));
          (env, msk) =
            (if priv_ver env \<ge> PRIV_VERSION_1_10_0 then
               (if (val XOR mstatus0) AND (MSTATUS_MXR OR MSTATUS_MPP OR
                     MSTATUS_MPRV OR MSTATUS_SUM) \<noteq> 0
                then tlb_flush env else env,
                MSTATUS_SIE OR MSTATUS_SPIE OR MSTATUS_MIE OR MSTATUS_MPIE OR
                MSTATUS_SPP OR MSTATUS_FS OR MSTATUS_MPRV OR MSTATUS_SUM OR
                MSTATUS_MPP OR MSTATUS_MXR)
             else (env, msk));
          msk = (if mpp = PRV_H \<or>
                    (\<not> riscv_has_ext env RVS \<and> mpp = PRV_S) \<or>
                    (\<not> riscv_has_ext env RVU \<and> mpp = PRV_U)
                 then msk AND NOT MSTATUS_MPP else msk)
      in (env, msk))"

definition mstatus_fs_sd :: "'a::len word \<Rightarrow> 'a word" where
  "mstatus_fs_sd mstatus1 =
     (let mstatus2 = (if mstatus1 AND MSTATUS_FS \<noteq> 0
                      then mstatus1 OR MSTATUS_FS else mstatus1);
          dirty = of_bool (mstatus2 AND MSTATUS_FS = MSTATUS_FS) OR
                  of_bool (mstatus2 AND MSTATUS_XS = MSTATUS_XS);
          mstatus3 = set_field mstatus2 MSTATUS_SD dirty
      in mstatus3)"

text \<open>The write mask that \<^verbatim>\<open>write_mstatus\<close> computes, in closed form.\<close>

definition mstatus_write_mask :: "('a::len, 'p) CPURISCVState \<Rightarrow> 'a word \<Rightarrow> 'a word" where
  "mstatus_write_mask env val =
     (let w = MSTATUS_SIE OR MSTATUS_SPIE OR MSTATUS_MIE OR MSTATUS_MPIE OR
              MSTATUS_SPP OR MSTATUS_FS OR MSTATUS_MPRV OR MSTATUS_SUM OR
              MSTATUS_MPP OR MSTATUS_MXR;
          msk = (if priv_ver env \<ge> PRIV_VERSION_1_10_0 then w
                 else if priv_ver env \<le> PRIV_VERSION_1_09_1 then
                   w OR (if validate_vm env (get_field val MSTATUS_VM) \<noteq> 0
                         then MSTATUS_VM else 0)
                 else 0);
          mpp = get_field val MSTATUS_MPP
      in if mpp = PRV_H \<or> (\<not> riscv_has_ext env RVS \<and> mpp = PRV_S) \<or>
            (\<not> riscv_has_ext env RVU \<and> mpp = PRV_U)
         then msk AND NOT MSTATUS_MPP else msk)"

text \<open>The mask \<^verbatim>\<open>read_sstatus\<close> and \<^verbatim>\<open>write_sstatus\<close> select by \<^verbatim>\<open>priv_ver\<close>.\<close>

definition sstatus_mask :: "('a::len, 'p) CPURISCVState \<Rightarrow> 'a word" where
  "sstatus_mask env =
     (if priv_ver env \<ge> PRIV_VERSION_1_10_0 then sstatus_v1_10_mask else sstatus_v1_9_mask)"

subsection \<open>Reachable states\<close>

text \<open>
  Modelled from the spec: the reset of the hart is not among the sources. The spec says
  that reset zeros all mutable architectural state except the identity fields; the
  predicate asks this of every register the CSR file stores and leaves the identity
  fields, the privilege mode, the PMP table and the logs free, so it covers every state
  the hart can be reset to.
\<close>

definition cpu_reset_state :: "('a::len, 'p) CPURISCVState \<Rightarrow> bool" where
  "cpu_reset_state env \<longleftrightarrow>
     frm env = 0 \<and> fp_status env = 0 \<and> mstatus env = 0 \<and> mip env = 0 \<and> mie env = 0 \<and>
     mideleg env = 0 \<and> medeleg env = 0 \<and> sptbr env = 0 \<and> satp env = 0 \<and>
     sbadaddr env = 0 \<and> mbadaddr env = 0 \<and> stvec env = 0 \<and> sepc env = 0 \<and>
     scause env = 0 \<and> mtvec env = 0 \<and> mepc env = 0 \<and> mcause env = 0 \<and>
     mucounteren env = 0 \<and> mscounteren env = 0 \<and> scounteren env = 0 \<and>
     mcounteren env = 0 \<and> sscratch env = 0 \<and> mscratch env = 0"

text \<open>
  The states a hart reaches from reset by CSR operations, each a call of
  \<^verbatim>\<open>riscv_csrrw\<close> that returns, with any change of the privilege mode in between
  (\<^verbatim>\<open>riscv_set_mode\<close>, declared in cpu.h, assigns \<^verbatim>\<open>env->priv\<close>).
\<close>

inductive reachable :: "('a::len, 'p) platform \<Rightarrow> ('a, 'p) CPURISCVState \<Rightarrow> bool"
  for h :: "('a, 'p) platform" where
  reset: "cpu_reset_state env \<Longrightarrow> reachable h env"
| csrrw: "reachable h env \<Longrightarrow>
          riscv_csrrw h env csrno ret_value new_value write_mask = Some (ret, cell, env') \<Longrightarrow>
          reachable h env'"
| set_mode: "reachable h env \<Longrightarrow> reachable h (env\<lparr>priv := newpriv\<rparr>)"

text \<open>FS is Off or Dirty, and SD is set when FS or XS is Dirty.\<close>

definition fs_sd_consistent :: "'a::len word \<Rightarrow> bool" where
  "fs_sd_consistent m \<longleftrightarrow>
     (m AND MSTATUS_FS = 0 \<or> m AND MSTATUS_FS = MSTATUS_FS) \<and>
     (m AND MSTATUS_FS = MSTATUS_FS \<or> m AND MSTATUS_XS = MSTATUS_XS
        \<longrightarrow> m AND MSTATUS_SD = MSTATUS_SD)"

section \<open>Properties\<close>

subsection \<open>The table\<close>

lemma designated_all:
  "list_all (\<lambda>(lo, hi, v). P v) xs \<Longrightarrow> P d \<Longrightarrow> P (designated xs i d)"
  by (induction xs arbitrary: d) auto

lemmas ops_defs = no_ops_def rd_only_def rd_wr_def op_only_def

lemma csr_ops_write_cases:
  assumes "csr_ops h csrno = Some ops" and "write_fn ops = Some w"
  shows "w \<in> csr_writers h"
proof -
  have "\<forall>w. write_fn (designated (csr_ops_init h) csrno no_ops) = Some w \<longrightarrow> w \<in> csr_writers h"
    by (rule designated_all) (simp_all add: csr_ops_init_def ops_defs csr_writers_def)
  with assms show ?thesis by (simp add: csr_ops_def split: if_splits)
qed

lemma csr_ops_op_cases:
  assumes "csr_ops h csrno = Some ops" and "op ops = Some f"
  shows "f = rmw_mip \<or> f = rmw_sip"
proof -
  have "\<forall>f. op (designated (csr_ops_init h) csrno no_ops) = Some f \<longrightarrow> f = rmw_mip \<or> f = rmw_sip"
    by (rule designated_all) (simp_all add: csr_ops_init_def ops_defs)
  with assms show ?thesis by (simp add: csr_ops_def split: if_splits)
qed


lemma write_mstatus_ret [simp]: "fst (write_mstatus env c v) = 0"
  by (simp add: write_mstatus_def Let_def split_def split del: if_split cong: if_cong)

lemma write_satp_ret [simp]: "fst (write_satp env c v) = 0"
  by (simp add: write_satp_def Let_def)



lemma writer_fail_keeps:
  assumes "w \<in> csr_writers h" and "fst (w env c v) < 0"
  shows "snd (w env c v) = env"
proof -
  have "\<forall>w \<in> csr_writers h. fst (w env c v) < 0 \<longrightarrow> snd (w env c v) = env"
    unfolding csr_writers_def
    by (simp add: write_sstatus_def write_fflags_def write_frm_def write_fcsr_def
      write_mideleg_def write_medeleg_def write_mie_def write_mtvec_def write_mcounteren_def
      write_mucounteren_def write_mscounteren_def write_mscratch_def write_mepc_def
      write_mcause_def write_mbadaddr_def write_sie_def write_stvec_def write_scounteren_def
      write_sscratch_def write_sepc_def write_scause_def write_sbadaddr_def write_pmpcfg_def
      write_pmpaddr_def Let_def)
  with assms show ?thesis by blast
qed

lemma rmw_mip_ret [simp]: "fst (rmw_mip env c ret n m) = 0"
  by (simp add: rmw_mip_def Let_def split_def)

lemma rmw_sip_ret [simp]: "fst (rmw_sip env c ret n m) = 0"
  by (simp add: rmw_sip_def)


subsection \<open>Illegal accesses leave the hart alone\<close>

lemma csrrw_fail_keeps:
  assumes "riscv_csrrw h env csrno ret_value new_value write_mask = Some (r, cell, env')"
    and "r < 0"
  shows "env' = env \<and> cell = ret_value"
proof (cases "csr_ops h csrno")
  case None
  with assms show ?thesis by (auto simp: riscv_csrrw_def Let_def split: if_splits)
next
  case (Some ops)
  show ?thesis
  proof (cases "op ops")
    case (Some f)
    with \<open>csr_ops h csrno = Some ops\<close> have "f = rmw_mip \<or> f = rmw_sip"
      by (rule csr_ops_op_cases)
    then have "fst (f env csrno ret_value new_value write_mask) = 0" by auto
    with assms Some \<open>csr_ops h csrno = Some ops\<close> show ?thesis
      by (auto simp: riscv_csrrw_def Let_def split: if_splits)
  next
    case None
    have wk: "e = env" if "write_fn ops = Some w" "w env csrno v = (r', e)" "r' < 0" for w v r' e
      using writer_fail_keeps [OF csr_ops_write_cases [OF \<open>csr_ops h csrno = Some ops\<close> that(1)],
          of env csrno v] that(2,3) by simp
    from assms None \<open>csr_ops h csrno = Some ops\<close> show ?thesis
      by (auto simp: riscv_csrrw_def Let_def dest: wk
          split: if_splits option.splits sum.splits prod.splits)
  qed
qed

text \<open>
  C8. Whenever \<^verbatim>\<open>riscv_csrrw\<close> returns the illegal-CSR status \<open>-1\<close>, whatever the
  check that produced it (the gate, an accessor that is missing, a floating-point
  accessor with FS off, a disabled counter, a version-gated accessor), the hart state
  after the call is the state before it: no register is written, the log of TLB flushes
  and the log of interrupt-controller updates have not grown, and nothing was stored
  through \<^verbatim>\<open>ret_value\<close>.
\<close>

theorem illegal_csr_no_effect:
  assumes "riscv_csrrw h env csrno ret_value new_value write_mask = Some (- 1, cell, env')"
  shows "env' = env \<and> cell = ret_value \<and>
         tlb_log env' = tlb_log env \<and> irq_log env' = irq_log env"
  using csrrw_fail_keeps [OF assms] by simp

lemmas csr_numbers =
  CSR_FFLAGS_def CSR_FRM_def CSR_FCSR_def CSR_CYCLE_def CSR_TIME_def CSR_INSTRET_def
  CSR_HPMCOUNTER3_def CSR_HPMCOUNTER31_def CSR_CYCLEH_def CSR_TIMEH_def CSR_INSTRETH_def
  CSR_HPMCOUNTER3H_def CSR_HPMCOUNTER31H_def CSR_SSTATUS_def CSR_SIE_def CSR_STVEC_def
  CSR_SCOUNTEREN_def CSR_SSCRATCH_def CSR_SEPC_def CSR_SCAUSE_def CSR_SBADADDR_def
  CSR_SIP_def CSR_SATP_def CSR_MSTATUS_def CSR_MISA_def CSR_MEDELEG_def CSR_MIDELEG_def
  CSR_MIE_def CSR_MTVEC_def CSR_MCOUNTEREN_def CSR_MUCOUNTEREN_def CSR_MSCOUNTEREN_def
  CSR_MHPMEVENT3_def CSR_MHPMEVENT31_def CSR_MSCRATCH_def CSR_MEPC_def CSR_MCAUSE_def
  CSR_MBADADDR_def CSR_MIP_def CSR_PMPCFG0_def CSR_PMPADDR0_def CSR_PMPADDR9_def
  CSR_PMPADDR15_def CSR_MCYCLE_def CSR_MINSTRET_def CSR_MHPMCOUNTER3_def
  CSR_MHPMCOUNTER31_def CSR_MCYCLEH_def CSR_MINSTRETH_def CSR_MHPMCOUNTER3H_def
  CSR_MHPMCOUNTER31H_def CSR_MVENDORID_def CSR_MARCHID_def CSR_MIMPID_def CSR_MHARTID_def

lemma csr_ops_fflags: "csr_ops h CSR_FFLAGS = Some (rd_wr read_fflags write_fflags)"
  by (simp add: csr_ops_def csr_ops_init_def csr_numbers)

theorem illegal_csr_no_effect_witness:
  "riscv_csrrw example_platform example_hart CSR_FFLAGS (Some 0) 5 (- 1)
     = Some (- 1, Some 0, example_hart) \<and>
   (example_hart = example_hart \<and> Some 0 = Some (0 :: 64 word) \<and>
    tlb_log example_hart = tlb_log example_hart \<and>
    irq_log example_hart = irq_log example_hart)"
proof -
  have h: "riscv_csrrw example_platform example_hart CSR_FFLAGS (Some 0) 5 (- 1)
             = Some (- 1, Some 0, example_hart)"
  proof -
    have "get_field CSR_FFLAGS 0x300 = 0" "get_field CSR_FFLAGS 0xC00 = 0"
      by (simp_all add: get_field_def CSR_FFLAGS_def)
    then show ?thesis
      by (simp add: riscv_csrrw_def csr_ops_fflags rd_wr_def read_fflags_def
          example_hart_def)
  qed
  show ?thesis using h illegal_csr_no_effect [OF h] by simp
qed

subsection \<open>Counters in machine mode\<close>

lemma get_field_priv_bounds: "0 \<le> get_field (csrno :: int) 0x300 \<and> get_field csrno 0x300 \<le> 3"
proof -
  have m: "(0x300 :: int) AND NOT (push_bit 1 0x300) = 0x100" by simp
  have "0 \<le> csrno AND 0x300" by (simp add: and_nonnegative_int_iff)
  moreover have "csrno AND 0x300 \<le> 0x300" by (rule AND_upper2) simp
  ultimately have "0 \<le> (csrno AND 0x300) div 0x100 \<and> (csrno AND 0x300) div 0x100 \<le> 3"
    by presburger
  then show ?thesis unfolding get_field_def m .
qed

lemma xlen_cases:
  assumes "TARGET_RISCV32 TYPE('a::len) \<or> TARGET_RISCV64 TYPE('a)"
  obtains "LENGTH('a) = 32" | "LENGTH('a) = 64"
  using assms by (auto simp: TARGET_RISCV32_def TARGET_RISCV64_def)

lemma machine_mode_passes:
  assumes "TARGET_RISCV32 TYPE('a::len) \<or> TARGET_RISCV64 TYPE('a)"
  shows "\<not> (PRV_M :: 'a word) < word_of_int (get_field csrno 0x300)"
proof -
  obtain k where k: "get_field csrno 0x300 = k" "0 \<le> k" "k \<le> 3"
    using get_field_priv_bounds by blast
  then have "k = 0 \<or> k = 1 \<or> k = 2 \<or> k = 3" by arith
  with assms show ?thesis unfolding k PRV_M_def
    by (elim xlen_cases) (auto simp: word_less_nat_alt)
qed

lemma priv_distinct:
  assumes "TARGET_RISCV32 TYPE('a::len) \<or> TARGET_RISCV64 TYPE('a)"
  shows "(PRV_M :: 'a word) \<noteq> PRV_U" "(PRV_M :: 'a word) \<noteq> PRV_S" "(PRV_S :: 'a word) \<noteq> PRV_U"
  using assms by (auto elim!: xlen_cases simp: PRV_M_def PRV_U_def PRV_S_def)

lemma counter_enabled_M:
  assumes "TARGET_RISCV32 TYPE('a::len) \<or> TARGET_RISCV64 TYPE('a)"
    and "priv env = (PRV_M :: 'a word)"
  shows "counter_enabled env csrno = 1"
proof -
  have b: "nat (csrno AND 31) < 32"
  proof -
    have "csrno AND 31 \<le> 31" by (rule AND_upper2) simp
    then show ?thesis by linarith
  qed
  have "32 \<le> LENGTH('a)" using assms(1) by (auto elim!: xlen_cases)
  with b have "drop_bit (nat (csrno AND 31)) (ucast (- 1 :: 32 word) :: 'a word) AND 1 = 1"
    by (intro bit_word_eqI) (auto simp: bit_simps)
  with assms priv_distinct [OF assms(1)] show ?thesis
    by (simp add: counter_enabled_def)
qed



lemma designated_covered:
  assumes "list_all (\<lambda>(lo, hi, v). lo \<le> i \<and> i \<le> hi \<longrightarrow> P v) xs"
    and "list_ex (\<lambda>(lo, hi, v). lo \<le> i \<and> i \<le> hi) xs \<or> P d"
  shows "P (designated xs i d)"
  using assms
proof (induction xs arbitrary: d)
  case Nil
  then show ?case by simp
next
  case (Cons e xs)
  obtain lo hi v where e: "e = (lo, hi, v)" by (cases e)
  show ?case
  proof (cases "lo \<le> i \<and> i \<le> hi")
    case True
    with Cons.prems e have "P v" by simp
    with Cons.IH [of v] Cons.prems e True show ?thesis by simp
  next
    case False
    with Cons.IH [of d] Cons.prems e show ?thesis by auto
  qed
qed

lemma csr_ops_hpmcounter:
  assumes "CSR_HPMCOUNTER3 \<le> csrno" "csrno \<le> CSR_HPMCOUNTER31"
  shows "csr_ops h csrno = Some (rd_only read_zero_counter)"
proof -
  have "designated (csr_ops_init h) csrno no_ops = rd_only read_zero_counter"
    using assms
    by (intro designated_covered [where P = "\<lambda>v. v = rd_only read_zero_counter"])
       (simp_all add: csr_ops_init_def csr_numbers)
  with assms show ?thesis by (simp add: csr_ops_def csr_numbers)
qed


lemma csr_ops_lookup:
  assumes "0 \<le> csrno" "csrno < 0xfff"
    and "list_all (\<lambda>(lo, hi, v). lo \<le> csrno \<and> csrno \<le> hi \<longrightarrow> v = ops) (csr_ops_init h)"
    and "list_ex (\<lambda>(lo, hi, v). lo \<le> csrno \<and> csrno \<le> hi) (csr_ops_init h)"
  shows "csr_ops h csrno = Some ops"
proof -
  have "designated (csr_ops_init h) csrno no_ops = ops"
    using assms(3,4) by (intro designated_covered [where P = "\<lambda>v. v = ops"]) simp_all
  with assms(1,2) show ?thesis by (simp add: csr_ops_def)
qed

lemma csr_ops_mhpmcounter:
  assumes "CSR_MHPMCOUNTER3 \<le> csrno" "csrno \<le> CSR_MHPMCOUNTER31"
  shows "csr_ops h csrno = Some (rd_only read_zero)"
  using assms by (intro csr_ops_lookup) (simp_all add: csr_ops_init_def csr_numbers)

lemma csr_ops_instret:
  assumes "csrno = CSR_CYCLE \<or> csrno = CSR_INSTRET \<or> csrno = CSR_MCYCLE \<or> csrno = CSR_MINSTRET"
  shows "csr_ops h csrno = Some (rd_only (read_instret h))"
  using assms by (elim disjE) (simp_all add: csr_ops_def csr_ops_init_def csr_numbers)

lemma csr_ops_instreth:
  assumes "TARGET_RISCV32 TYPE('a)"
    and "csrno = CSR_CYCLEH \<or> csrno = CSR_INSTRETH \<or> csrno = CSR_MCYCLEH \<or> csrno = CSR_MINSTRETH"
  shows "csr_ops (h :: ('a::len, 'p) platform) csrno = Some (rd_only (read_instreth h))"
  using assms by (elim disjE) (simp_all add: csr_ops_def csr_ops_init_def csr_numbers)

lemma csr_ops_hpmcounterh:
  assumes "TARGET_RISCV32 TYPE('a)" "CSR_HPMCOUNTER3H \<le> csrno" "csrno \<le> CSR_HPMCOUNTER31H"
  shows "csr_ops (h :: ('a::len, 'p) platform) csrno = Some (rd_only read_zero_counter)"
  using assms by (intro csr_ops_lookup) (simp_all add: csr_ops_init_def csr_numbers)

lemma csr_ops_mhpmcounterh:
  assumes "TARGET_RISCV32 TYPE('a)" "CSR_MHPMCOUNTER3H \<le> csrno" "csrno \<le> CSR_MHPMCOUNTER31H"
  shows "csr_ops (h :: ('a::len, 'p) platform) csrno = Some (rd_only read_zero)"
  using assms by (intro csr_ops_lookup) (simp_all add: csr_ops_init_def csr_numbers)


lemma counter_csr_ops:
  assumes "counter_csr TYPE('a) csrno"
  shows "csr_ops (h :: ('a::len, 'p) platform) csrno \<in>
           {Some (rd_only (read_instret h)), Some (rd_only (read_instreth h)),
            Some (rd_only read_zero_counter), Some (rd_only read_zero)}"
  using assms unfolding counter_csr_def
  by (elim disjE conjE)
     (simp_all add: csr_ops_instret csr_ops_instreth csr_ops_hpmcounter csr_ops_mhpmcounter
        csr_ops_hpmcounterh csr_ops_mhpmcounterh)

text \<open>
  C10. In machine mode every counter CSR read succeeds, whatever the counter-enable
  registers hold: the user-level \<^verbatim>\<open>cycle\<close>, \<^verbatim>\<open>instret\<close> and
  \<^verbatim>\<open>hpmcounter3..31\<close> (with their RV32 high halves) as well as the machine-mode
  counters. The read leaves the hart state as it was.
\<close>

theorem machine_mode_reads_every_counter:
  fixes env :: "('a::len, 'p) CPURISCVState"
  assumes "TARGET_RISCV32 TYPE('a) \<or> TARGET_RISCV64 TYPE('a)"
    and "priv env = PRV_M"
    and "counter_csr TYPE('a) csrno"
  shows "\<exists>v. riscv_csrrw h env csrno ret_value new_value 0 = Some (0, store_ret ret_value v, env)"
proof -
  have g: "\<not> priv env < word_of_int (get_field csrno 0x300)"
    using machine_mode_passes [OF assms(1)] assms(2) by simp
  have c: "counter_enabled env csrno \<noteq> 0"
    using counter_enabled_M [OF assms(1,2)] by simp
  from counter_csr_ops [OF assms(3), of h] show ?thesis
    by (auto simp: riscv_csrrw_def g c rd_only_def read_instret_def read_instreth_def
        read_zero_counter_def read_zero_def)
qed


theorem machine_mode_reads_every_counter_witness:
  "(TARGET_RISCV32 TYPE(64) \<or> TARGET_RISCV64 TYPE(64)) \<and>
   priv example_hart = PRV_M \<and> counter_csr TYPE(64) CSR_CYCLE \<and>
   (\<exists>v. riscv_csrrw example_platform example_hart CSR_CYCLE (Some 0) 0 0
          = Some (0, store_ret (Some 0) v, example_hart))"
proof -
  have a: "TARGET_RISCV32 TYPE(64) \<or> TARGET_RISCV64 TYPE(64)"
    by (simp add: TARGET_RISCV64_def)
  have b: "priv example_hart = PRV_M" by (simp add: example_hart_def)
  have c: "counter_csr TYPE(64) CSR_CYCLE" by (simp add: counter_csr_def)
  show ?thesis
    using a b c machine_mode_reads_every_counter [OF a b c, of example_platform "Some 0" 0]
    by simp
qed

subsection \<open>The gate\<close>

lemma csrrw_gate_in_range:
  assumes "csr_ops h csrno = Some ops"
    and "priv env < word_of_int (get_field csrno 0x300) \<or>
         (write_mask \<noteq> 0 \<and> get_field csrno 0xC00 = 3) \<or>
         (read ops = None \<and> write_fn ops = None \<and> op ops = None)"
  shows "riscv_csrrw h env csrno ret_value new_value write_mask = Some (- 1, ret_value, env)"
  using assms by (auto simp: riscv_csrrw_def)

lemma csrrw_gate_dispatch:
  assumes "csr_ops h csrno = Some ops"
    and "\<not> priv env < word_of_int (get_field csrno 0x300)"
    and "write_mask = 0 \<or> get_field csrno 0xC00 \<noteq> 3"
  shows "riscv_csrrw h env csrno ret_value new_value write_mask =
     (case op ops of
        Some f \<Rightarrow> Some (f env csrno ret_value new_value write_mask)
      | None \<Rightarrow>
         (case read ops of
            None \<Rightarrow> Some (- 1, ret_value, env)
          | Some rd \<Rightarrow>
             (case rd env csrno of
                Inl ret \<Rightarrow> Some (ret, ret_value, env)
              | Inr old_value \<Rightarrow>
                 (case (if write_mask \<noteq> 0 then write_fn ops else None) of
                    None \<Rightarrow> Some (0, store_ret ret_value old_value, env)
                  | Some wr \<Rightarrow>
                     (case wr env csrno ((old_value AND NOT write_mask) OR
                                        (new_value AND write_mask)) of
                        (ret, env') \<Rightarrow>
                          if ret < 0 then Some (ret, ret_value, env')
                          else Some (0, store_ret ret_value old_value, env'))))))"
  using assms by (auto simp: riscv_csrrw_def Let_def split: option.splits sum.splits)

lemma csr_ops_at:
  "csr_ops h CSR_MSTATUS = Some (rd_wr read_mstatus write_mstatus)"
  "csr_ops h CSR_SSTATUS = Some (rd_wr read_sstatus write_sstatus)"
  "csr_ops h CSR_SATP = Some (rd_wr read_satp write_satp)"
  "csr_ops h CSR_MIP = Some (op_only rmw_mip)"
  "csr_ops h CSR_SIP = Some (op_only rmw_sip)"
  "csr_ops h CSR_SCOUNTEREN = Some (rd_wr read_scounteren write_scounteren)"
  "csr_ops h CSR_MCOUNTEREN = Some (rd_wr read_mcounteren write_mcounteren)"
  "csr_ops h CSR_CYCLE = Some (rd_only (read_instret h))"
  by (simp_all add: csr_ops_def csr_ops_init_def csr_numbers)

lemma csr_gate_fields:
  "get_field CSR_MSTATUS 0x300 = 3" "get_field CSR_MSTATUS 0xC00 = 0"
  "get_field CSR_SSTATUS 0x300 = 1" "get_field CSR_SSTATUS 0xC00 = 0"
  "get_field CSR_SATP 0x300 = 1" "get_field CSR_SATP 0xC00 = 0"
  "get_field CSR_MIP 0x300 = 3" "get_field CSR_MIP 0xC00 = 0"
  "get_field CSR_SIP 0x300 = 1" "get_field CSR_SIP 0xC00 = 0"
  "get_field CSR_SCOUNTEREN 0x300 = 1" "get_field CSR_SCOUNTEREN 0xC00 = 0"
  "get_field CSR_MCOUNTEREN 0x300 = 3" "get_field CSR_MCOUNTEREN 0xC00 = 0"
  "get_field CSR_CYCLE 0x300 = 0" "get_field CSR_CYCLE 0xC00 = 3"
  "get_field CSR_FFLAGS 0x300 = 0" "get_field CSR_FFLAGS 0xC00 = 0"
  by (simp_all add: get_field_def csr_numbers)

text \<open>
  C1. The gate is to answer \<open>-1\<close> for every CSR number that has no accessor. For the
  numbers 0 to 0xffe it does (\<open>csrrw_gate_in_range\<close>, with \<open>csrrw_gate_dispatch\<close>
  for the accesses that pass). The number 0xfff has privilege field 3 and passes the
  checks of a machine-mode read, and \<^verbatim>\<open>csr_ops\<close> has 0xfff elements: the access
  indexes the table one element past its end instead of returning \<open>-1\<close>.
\<close>

theorem csrrw_last_csr_number_out_of_bounds:
  "priv example_hart = PRV_M \<and> get_field (0xfff :: int) 0x300 = 3 \<and>
   csr_ops example_platform 0xfff = None \<and>
   riscv_csrrw example_platform example_hart 0xfff (Some 0) 0 0 = None"
  by (simp add: riscv_csrrw_def csr_ops_def get_field_def example_hart_def PRV_M_def)

subsection \<open>Accesses with write mask zero\<close>

lemma rmw_zero_mask:
  "rmw_mip env c ret v 0 = (0, store_ret ret (ucast (ucast (mip env) :: 32 word)), env)"
  "rmw_sip env c ret v 0 = (0, store_ret ret (ucast (ucast (mip env) :: 32 word)), env)"
  by (simp_all add: rmw_mip_def rmw_sip_def)

lemma csr_ops_read_cases:
  assumes "csr_ops h csrno = Some ops" and "read ops = Some rd"
  shows "rd \<in> csr_readers h"
proof -
  have "\<forall>rd. read (designated (csr_ops_init h) csrno no_ops) = Some rd \<longrightarrow> rd \<in> csr_readers h"
    by (rule designated_all) (simp_all add: csr_ops_init_def ops_defs csr_readers_def)
  with assms show ?thesis by (simp add: csr_ops_def split: if_splits)
qed

lemmas read_defs =
  read_fflags_def read_frm_def read_fcsr_def read_instret_def read_instreth_def read_zero_def
  read_mhartid_def read_mstatus_def read_misa_def read_mideleg_def read_medeleg_def
  read_mie_def read_mtvec_def read_mcounteren_def read_mucounteren_def read_mscounteren_def
  read_mscratch_def read_mepc_def read_mcause_def read_mbadaddr_def read_sstatus_def
  read_sie_def read_stvec_def read_scounteren_def read_sscratch_def read_sepc_def
  read_scause_def read_sbadaddr_def read_satp_def read_pmpcfg_def read_pmpaddr_def
  read_zero_counter_def

lemma reader_fail_status:
  assumes "rd \<in> csr_readers h" and "rd env c = Inl r"
  shows "r = - 1"
proof -
  have "\<forall>rd \<in> csr_readers h. rd env c = Inl r \<longrightarrow> r = - 1"
    unfolding csr_readers_def by (simp add: read_defs Let_def)
  with assms show ?thesis by blast
qed

text \<open>
  With write mask zero the write accessor is skipped and the two read-modify-write
  accessors take their load branch: whatever the status, the hart state (registers, TLB
  flush log, interrupt-controller log) is the one before the call.
\<close>

lemma csrrw_zero_mask_keeps_state:
  assumes "riscv_csrrw h env csrno ret_value v 0 = Some (r, cell, env')"
  shows "env' = env"
proof (cases "csr_ops h csrno")
  case None
  with assms show ?thesis by (auto simp: riscv_csrrw_def Let_def split: if_splits)
next
  case (Some ops)
  show ?thesis
  proof (cases "op ops")
    case (Some f)
    with \<open>csr_ops h csrno = Some ops\<close> have "f = rmw_mip \<or> f = rmw_sip"
      by (rule csr_ops_op_cases)
    then have "f env csrno ret_value v 0 =
        (0, store_ret ret_value (ucast (ucast (mip env) :: 32 word)), env)"
      by (auto simp: rmw_zero_mask)
    with assms Some \<open>csr_ops h csrno = Some ops\<close> show ?thesis
      by (auto simp: riscv_csrrw_def Let_def split: if_splits)
  next
    case None
    from assms None \<open>csr_ops h csrno = Some ops\<close> show ?thesis
      by (auto simp: riscv_csrrw_def Let_def split: if_splits option.splits sum.splits)
  qed
qed

subsection \<open>Counter-enable registers\<close>

lemma cycle_offset: "CSR_CYCLE AND 31 = 0"
  by (simp add: CSR_CYCLE_def)

text \<open>
  C3. Under privilege spec 1.10 a read of \<^verbatim>\<open>cycle\<close> from U is to succeed exactly when
  bit 0 of \<^verbatim>\<open>scounteren\<close> is set, and from S when bit 0 of \<^verbatim>\<open>mcounteren\<close> is.
  \<^verbatim>\<open>counter_enabled\<close> reads the fields \<^verbatim>\<open>env->mucounteren\<close> and
  \<^verbatim>\<open>env->mscounteren\<close> instead, which no accessor writes: after machine mode has
  set every bit of \<^verbatim>\<open>scounteren\<close> and \<^verbatim>\<open>mcounteren\<close> through \<^verbatim>\<open>riscv_csrrw\<close>,
  the read of \<^verbatim>\<open>cycle\<close> is still illegal from U and from S; and with
  \<^verbatim>\<open>scounteren\<close> zero it succeeds from U when bit 0 of the field
  \<^verbatim>\<open>env->mucounteren\<close> is set.
\<close>

theorem user_counter_gate_ignores_scounteren:
  "priv_ver example_hart = PRIV_VERSION_1_10_0 \<and>
   riscv_csrrw example_platform example_hart CSR_SCOUNTEREN None (- 1) (- 1)
     = Some (0, None, example_hart\<lparr>scounteren := - 1\<rparr>) \<and>
   riscv_csrrw example_platform (example_hart\<lparr>scounteren := - 1\<rparr>) CSR_MCOUNTEREN None (- 1) (- 1)
     = Some (0, None, example_hart\<lparr>scounteren := - 1, mcounteren := - 1\<rparr>) \<and>
   riscv_csrrw example_platform
       (example_hart\<lparr>scounteren := - 1, mcounteren := - 1, priv := PRV_U\<rparr>) CSR_CYCLE (Some 0) 0 0
     = Some (- 1, Some 0, example_hart\<lparr>scounteren := - 1, mcounteren := - 1, priv := PRV_U\<rparr>) \<and>
   riscv_csrrw example_platform
       (example_hart\<lparr>scounteren := - 1, mcounteren := - 1, priv := PRV_S\<rparr>) CSR_CYCLE (Some 0) 0 0
     = Some (- 1, Some 0, example_hart\<lparr>scounteren := - 1, mcounteren := - 1, priv := PRV_S\<rparr>) \<and>
   riscv_csrrw example_platform
       (example_hart\<lparr>mucounteren := 1, priv := PRV_U\<rparr>) CSR_CYCLE (Some 0) 0 0
     = Some (0, Some 0x123456789, example_hart\<lparr>mucounteren := 1, priv := PRV_U\<rparr>)"
  by (simp add: riscv_csrrw_def csr_ops_at csr_gate_fields rd_wr_def rd_only_def
      read_scounteren_def write_scounteren_def read_mcounteren_def write_mcounteren_def
      read_instret_def counter_enabled_def store_ret_def example_hart_def example_platform_def
      PRV_M_def PRV_S_def PRV_U_def PRIV_VERSION_1_10_0_def cycle_offset)

subsection \<open>Bits of the masks\<close>

lemma bit_field_iff:
  "bit (push_bit k (mask w) :: 'a::len word) n \<longleftrightarrow> n < LENGTH('a) \<and> k \<le> n \<and> n < k + w"
  by (auto simp: bit_simps)

lemma bit_single_iff:
  "bit (push_bit k 1 :: 'a::len word) n \<longleftrightarrow> n < LENGTH('a) \<and> n = k"
  by (auto simp: bit_simps)

lemma masks_as_fields:
  "(SATP64_MODE :: 'a::len word) = push_bit 60 (mask 4)"
  "(SATP64_ASID :: 'a::len word) = push_bit 44 (mask 16)"
  "(SATP64_PPN :: 'a::len word) = push_bit 0 (mask 44)"
  "(SATP32_MODE :: 'a::len word) = push_bit 31 (mask 1)"
  "(SATP32_ASID :: 'a::len word) = push_bit 22 (mask 9)"
  "(SATP32_PPN :: 'a::len word) = push_bit 0 (mask 22)"
  "(MSTATUS_UIE :: 'a::len word) = push_bit 0 (mask 1)"
  "(MSTATUS_SIE :: 'a::len word) = push_bit 1 (mask 1)"
  "(MSTATUS_MIE :: 'a::len word) = push_bit 3 (mask 1)"
  "(MSTATUS_UPIE :: 'a::len word) = push_bit 4 (mask 1)"
  "(MSTATUS_SPIE :: 'a::len word) = push_bit 5 (mask 1)"
  "(MSTATUS_MPIE :: 'a::len word) = push_bit 7 (mask 1)"
  "(MSTATUS_SPP :: 'a::len word) = push_bit 8 (mask 1)"
  "(MSTATUS_MPP :: 'a::len word) = push_bit 11 (mask 2)"
  "(MSTATUS_FS :: 'a::len word) = push_bit 13 (mask 2)"
  "(MSTATUS_XS :: 'a::len word) = push_bit 15 (mask 2)"
  "(MSTATUS_MPRV :: 'a::len word) = push_bit 17 (mask 1)"
  "(MSTATUS_SUM :: 'a::len word) = push_bit 18 (mask 1)"
  "(MSTATUS_MXR :: 'a::len word) = push_bit 19 (mask 1)"
  "(MSTATUS_VM :: 'a::len word) = push_bit 24 (mask 5)"
  "(MSTATUS32_SD :: 'a::len word) = push_bit 31 (mask 1)"
  "(MSTATUS64_SD :: 'a::len word) = push_bit 63 (mask 1)"
  "(SSTATUS_UIE :: 'a::len word) = push_bit 0 (mask 1)"
  "(SSTATUS_SIE :: 'a::len word) = push_bit 1 (mask 1)"
  "(SSTATUS_UPIE :: 'a::len word) = push_bit 4 (mask 1)"
  "(SSTATUS_SPIE :: 'a::len word) = push_bit 5 (mask 1)"
  "(SSTATUS_SPP :: 'a::len word) = push_bit 8 (mask 1)"
  "(SSTATUS_FS :: 'a::len word) = push_bit 13 (mask 2)"
  "(SSTATUS_XS :: 'a::len word) = push_bit 15 (mask 2)"
  "(SSTATUS_SUM :: 'a::len word) = push_bit 18 (mask 1)"
  "(SSTATUS_MXR :: 'a::len word) = push_bit 19 (mask 1)"
  by (simp_all add: SATP64_MODE_def SATP64_ASID_def SATP64_PPN_def SATP32_MODE_def SATP32_ASID_def
      SATP32_PPN_def MSTATUS_UIE_def MSTATUS_SIE_def MSTATUS_MIE_def MSTATUS_UPIE_def
      MSTATUS_SPIE_def MSTATUS_MPIE_def MSTATUS_SPP_def MSTATUS_MPP_def MSTATUS_FS_def
      MSTATUS_XS_def MSTATUS_MPRV_def MSTATUS_SUM_def MSTATUS_MXR_def MSTATUS_VM_def
      MSTATUS32_SD_def MSTATUS64_SD_def SSTATUS_UIE_def SSTATUS_SIE_def
      SSTATUS_UPIE_def SSTATUS_SPIE_def SSTATUS_SPP_def SSTATUS_FS_def SSTATUS_XS_def
      SSTATUS_SUM_def SSTATUS_MXR_def
      mask_eq_exp_minus_1 push_bit_eq_mult)

lemma bit_masks:
  "bit (SATP64_MODE :: 'a::len word) n \<longleftrightarrow> n < LENGTH('a) \<and> 60 \<le> n \<and> n < 64"
  "bit (SATP64_ASID :: 'a::len word) n \<longleftrightarrow> n < LENGTH('a) \<and> 44 \<le> n \<and> n < 60"
  "bit (SATP64_PPN :: 'a::len word) n \<longleftrightarrow> n < LENGTH('a) \<and> 0 \<le> n \<and> n < 44"
  "bit (SATP32_MODE :: 'a::len word) n \<longleftrightarrow> n < LENGTH('a) \<and> 31 \<le> n \<and> n < 32"
  "bit (SATP32_ASID :: 'a::len word) n \<longleftrightarrow> n < LENGTH('a) \<and> 22 \<le> n \<and> n < 31"
  "bit (SATP32_PPN :: 'a::len word) n \<longleftrightarrow> n < LENGTH('a) \<and> 0 \<le> n \<and> n < 22"
  "bit (MSTATUS_UIE :: 'a::len word) n \<longleftrightarrow> n < LENGTH('a) \<and> 0 \<le> n \<and> n < 1"
  "bit (MSTATUS_SIE :: 'a::len word) n \<longleftrightarrow> n < LENGTH('a) \<and> 1 \<le> n \<and> n < 2"
  "bit (MSTATUS_MIE :: 'a::len word) n \<longleftrightarrow> n < LENGTH('a) \<and> 3 \<le> n \<and> n < 4"
  "bit (MSTATUS_UPIE :: 'a::len word) n \<longleftrightarrow> n < LENGTH('a) \<and> 4 \<le> n \<and> n < 5"
  "bit (MSTATUS_SPIE :: 'a::len word) n \<longleftrightarrow> n < LENGTH('a) \<and> 5 \<le> n \<and> n < 6"
  "bit (MSTATUS_MPIE :: 'a::len word) n \<longleftrightarrow> n < LENGTH('a) \<and> 7 \<le> n \<and> n < 8"
  "bit (MSTATUS_SPP :: 'a::len word) n \<longleftrightarrow> n < LENGTH('a) \<and> 8 \<le> n \<and> n < 9"
  "bit (MSTATUS_MPP :: 'a::len word) n \<longleftrightarrow> n < LENGTH('a) \<and> 11 \<le> n \<and> n < 13"
  "bit (MSTATUS_FS :: 'a::len word) n \<longleftrightarrow> n < LENGTH('a) \<and> 13 \<le> n \<and> n < 15"
  "bit (MSTATUS_XS :: 'a::len word) n \<longleftrightarrow> n < LENGTH('a) \<and> 15 \<le> n \<and> n < 17"
  "bit (MSTATUS_MPRV :: 'a::len word) n \<longleftrightarrow> n < LENGTH('a) \<and> 17 \<le> n \<and> n < 18"
  "bit (MSTATUS_SUM :: 'a::len word) n \<longleftrightarrow> n < LENGTH('a) \<and> 18 \<le> n \<and> n < 19"
  "bit (MSTATUS_MXR :: 'a::len word) n \<longleftrightarrow> n < LENGTH('a) \<and> 19 \<le> n \<and> n < 20"
  "bit (MSTATUS_VM :: 'a::len word) n \<longleftrightarrow> n < LENGTH('a) \<and> 24 \<le> n \<and> n < 29"
  "bit (MSTATUS32_SD :: 'a::len word) n \<longleftrightarrow> n < LENGTH('a) \<and> 31 \<le> n \<and> n < 32"
  "bit (MSTATUS64_SD :: 'a::len word) n \<longleftrightarrow> n < LENGTH('a) \<and> 63 \<le> n \<and> n < 64"
  "bit (SSTATUS_UIE :: 'a::len word) n \<longleftrightarrow> n < LENGTH('a) \<and> 0 \<le> n \<and> n < 1"
  "bit (SSTATUS_SIE :: 'a::len word) n \<longleftrightarrow> n < LENGTH('a) \<and> 1 \<le> n \<and> n < 2"
  "bit (SSTATUS_UPIE :: 'a::len word) n \<longleftrightarrow> n < LENGTH('a) \<and> 4 \<le> n \<and> n < 5"
  "bit (SSTATUS_SPIE :: 'a::len word) n \<longleftrightarrow> n < LENGTH('a) \<and> 5 \<le> n \<and> n < 6"
  "bit (SSTATUS_SPP :: 'a::len word) n \<longleftrightarrow> n < LENGTH('a) \<and> 8 \<le> n \<and> n < 9"
  "bit (SSTATUS_FS :: 'a::len word) n \<longleftrightarrow> n < LENGTH('a) \<and> 13 \<le> n \<and> n < 15"
  "bit (SSTATUS_XS :: 'a::len word) n \<longleftrightarrow> n < LENGTH('a) \<and> 15 \<le> n \<and> n < 17"
  "bit (SSTATUS_SUM :: 'a::len word) n \<longleftrightarrow> n < LENGTH('a) \<and> 18 \<le> n \<and> n < 19"
  "bit (SSTATUS_MXR :: 'a::len word) n \<longleftrightarrow> n < LENGTH('a) \<and> 19 \<le> n \<and> n < 20"
  unfolding masks_as_fields bit_field_iff by auto


lemma bit_SD:
  assumes "TARGET_RISCV32 TYPE('a::len) \<or> TARGET_RISCV64 TYPE('a)"
  shows "bit (MSTATUS_SD :: 'a word) n \<longleftrightarrow> Suc n = LENGTH('a)"
    and "bit (SSTATUS_SD :: 'a word) n \<longleftrightarrow> Suc n = LENGTH('a)"
proof -
  have "(SSTATUS_SD :: 'a word) = MSTATUS_SD"
    by (simp add: SSTATUS_SD_def MSTATUS_SD_def MSTATUS32_SD_def MSTATUS64_SD_def)
  moreover show "bit (MSTATUS_SD :: 'a word) n \<longleftrightarrow> Suc n = LENGTH('a)"
    using assms by (elim xlen_cases) (auto simp: MSTATUS_SD_def TARGET_RISCV32_def bit_masks)
  ultimately show "bit (SSTATUS_SD :: 'a word) n \<longleftrightarrow> Suc n = LENGTH('a)" by simp
qed

lemma bit_SATP:
  assumes "TARGET_RISCV32 TYPE('a::len) \<or> TARGET_RISCV64 TYPE('a)"
  shows "bit (SATP_MODE :: 'a word) n \<longleftrightarrow>
           n < LENGTH('a) \<and> (if TARGET_RISCV32 TYPE('a) then 31 else 60) \<le> n"
    and "bit (SATP_MODE OR SATP_ASID OR SATP_PPN :: 'a word) n \<longleftrightarrow> n < LENGTH('a)"
  using assms unfolding TARGET_RISCV32_def TARGET_RISCV64_def
  by (auto simp: SATP_MODE_def SATP_ASID_def SATP_PPN_def TARGET_RISCV32_def bit_masks bit_or_iff)

lemma word_xor_eq_0_iff: "x XOR y = 0 \<longleftrightarrow> x = (y :: 'a::len word)"
  by (metis bit.xor_left_self xor.right_neutral xor_self_eq)

lemma satp_fields_cover:
  assumes "TARGET_RISCV32 TYPE('a::len) \<or> TARGET_RISCV64 TYPE('a)"
  shows "(val XOR old) AND (SATP_MODE OR SATP_ASID OR SATP_PPN :: 'a word) \<noteq> 0 \<longleftrightarrow> val \<noteq> old"
proof -
  have "(SATP_MODE OR SATP_ASID OR SATP_PPN :: 'a word) = - 1"
    by (rule bit_word_eqI) (simp add: bit_SATP(2) [OF assms])
  then show ?thesis by (simp add: word_xor_eq_0_iff)
qed

lemma bit_shl1:
  "bit (push_bit 1 (x :: 'a::len word)) n \<longleftrightarrow> n < LENGTH('a) \<and> 0 < n \<and> bit x (n - 1)"
  unfolding bit_push_bit_iff by (auto dest: bit_imp_le_length)

lemma satp_mode_field:
  assumes "TARGET_RISCV32 TYPE('a::len) \<or> TARGET_RISCV64 TYPE('a)"
  shows "get_field val (SATP_MODE :: 'a word) =
           drop_bit (if TARGET_RISCV32 TYPE('a) then 31 else 60) val"
proof -
  let ?k = "if TARGET_RISCV32 TYPE('a) then 31 else 60 :: nat"
  have u: "(SATP_MODE AND NOT (push_bit 1 SATP_MODE) :: 'a word) = 2 ^ ?k"
  proof (rule bit_word_eqI)
    fix n assume "n < LENGTH('a)"
    then show "bit (SATP_MODE AND NOT (push_bit 1 SATP_MODE) :: 'a word) n = bit (2 ^ ?k :: 'a word) n"
      unfolding bit_and_iff bit_not_iff bit_shl1 bit_SATP(1) [OF assms] bit_exp_iff
      using assms by (auto simp: TARGET_RISCV32_def TARGET_RISCV64_def)
  qed
  have m: "drop_bit ?k (val AND SATP_MODE) = drop_bit ?k val"
    by (intro bit_word_eqI)
       (auto simp: bit_drop_bit_eq bit_and_iff bit_SATP(1) [OF assms] dest: bit_imp_le_length)
  show ?thesis unfolding get_field_def u
    by (simp only: drop_bit_eq_div [symmetric] m)
qed


subsection \<open>The interrupt-pending register\<close>

lemma bit_MIP:
  "bit (MIP_SSIP :: 'a::len word) n \<longleftrightarrow> n < LENGTH('a) \<and> n = 1"
  "bit (MIP_MSIP :: 'a::len word) n \<longleftrightarrow> n < LENGTH('a) \<and> n = 3"
  "bit (MIP_STIP :: 'a::len word) n \<longleftrightarrow> n < LENGTH('a) \<and> n = 5"
  "bit (MIP_MTIP :: 'a::len word) n \<longleftrightarrow> n < LENGTH('a) \<and> n = 7"
  "bit (MIP_SEIP :: 'a::len word) n \<longleftrightarrow> n < LENGTH('a) \<and> n = 9"
  by (simp_all only: MIP_SSIP_def MIP_MSIP_def MIP_STIP_def MIP_MTIP_def MIP_SEIP_def
      bit_single_iff)

lemma mip_effective_mask:
  "(m AND delegable_ints) AND NOT MIP_SEIP = m AND (MIP_SSIP OR MIP_STIP :: 'a::len word)"
  by (rule bit_word_eqI)
     (auto simp: delegable_ints_def bit_and_iff bit_or_iff bit_not_iff bit_MIP)

lemma rmw_mip_eq:
  "rmw_mip env csrno ret_value new_value m =
     (let eff = m AND (MIP_SSIP OR MIP_STIP)
      in (0, store_ret ret_value (ucast (ucast (mip env) :: 32 word)),
          if eff = 0 then env
          else env\<lparr>mip := (mip env AND NOT eff) OR (new_value AND eff),
                   irq_log := irq_log env @ [(eff, new_value AND eff)]\<rparr>))"
proof -
  have a: "(x AND e) AND e = x AND e" for x e :: "'a word"
    by (simp add: and.assoc)
  show ?thesis
    by (simp add: rmw_mip_def Let_def mip_effective_mask riscv_set_local_interrupt_def a)
qed

text \<open>
  C2, as the code has it. A machine-mode access to \<^verbatim>\<open>mip\<close> with write mask \<open>m\<close>
  updates under the effective mask \<open>m AND (SSIP OR STIP)\<close>: the mask is first cut to
  the delegable interrupts and then loses SEIP, so MSIP and MTIP are never written
  through the CSR. The selected bits are replaced by the bits of the new value in one
  call of the interrupt controller, the prior value of \<^verbatim>\<open>mip\<close> (read as a
  \<^verbatim>\<open>uint32_t\<close>) is returned, and when the effective mask is zero (in particular when
  \<open>m = 0\<close>) the access is a load that modifies nothing.
\<close>

theorem rmw_mip_updates_only_ssip_stip:
  fixes env :: "('a::len, 'p) CPURISCVState"
  assumes "priv env = PRV_M"
  shows "riscv_csrrw h env CSR_MIP ret_value new_value m =
     (let eff = m AND (MIP_SSIP OR MIP_STIP)
      in Some (0, store_ret ret_value (ucast (ucast (mip env) :: 32 word)),
          if eff = 0 then env
          else env\<lparr>mip := (mip env AND NOT eff) OR (new_value AND eff),
                   irq_log := irq_log env @ [(eff, new_value AND eff)]\<rparr>))"
  by (simp add: riscv_csrrw_def assms PRV_M_def csr_gate_fields csr_ops_at op_only_def
      rmw_mip_eq Let_def)

theorem rmw_mip_updates_only_ssip_stip_witness:
  "priv example_hart = PRV_M \<and>
   riscv_csrrw example_platform example_hart CSR_MIP (Some 0) (- 1) (MIP_SSIP OR MIP_MSIP)
     = Some (0, Some 0, example_hart\<lparr>mip := MIP_SSIP, irq_log := [(MIP_SSIP, MIP_SSIP)]\<rparr>)"
proof -
  have b: "priv example_hart = PRV_M" by (simp add: example_hart_def)
  have e: "(MIP_SSIP OR MIP_MSIP) AND (MIP_SSIP OR MIP_STIP) = (MIP_SSIP :: 64 word)"
    by (simp add: MIP_SSIP_def MIP_MSIP_def MIP_STIP_def)
  have z: "(MIP_SSIP :: 64 word) \<noteq> 0" "mip example_hart = 0" "irq_log example_hart = []"
    by (simp_all add: MIP_SSIP_def example_hart_def)
  show ?thesis
    using b rmw_mip_updates_only_ssip_stip [OF b, of example_platform "Some 0" "- 1"
        "MIP_SSIP OR MIP_MSIP"]
    by (simp add: e z store_ret_def)
qed

text \<open>
  The claim as stated, with the effective mask \<open>m\<close> minus SEIP, fails for \<open>m = MSIP\<close>:
  the access leaves \<^verbatim>\<open>mip\<close> as it was.
\<close>

theorem rmw_mip_msip_counterexample:
  "riscv_csrrw example_platform example_hart CSR_MIP (Some 0) MIP_MSIP MIP_MSIP
     = Some (0, Some 0, example_hart) \<and>
   mip example_hart \<noteq>
     (mip example_hart AND NOT (MIP_MSIP AND NOT MIP_SEIP)) OR
     (MIP_MSIP AND (MIP_MSIP AND NOT MIP_SEIP))"
  by (simp add: riscv_csrrw_def csr_gate_fields csr_ops_at op_only_def rmw_mip_eq
      example_hart_def PRV_M_def MIP_MSIP_def MIP_SSIP_def MIP_STIP_def MIP_SEIP_def
      store_ret_def)


subsection \<open>Reading the supervisor interrupt-pending register\<close>

text \<open>
  C9. A \<^verbatim>\<open>riscv_csrrw\<close> with write mask zero mutates no state, but for \<^verbatim>\<open>sip\<close> it
  does not return the current value of the CSR, which is \<^verbatim>\<open>mip & mideleg\<close>:
  \<^verbatim>\<open>rmw_sip\<close> hands back what \<^verbatim>\<open>rmw_mip\<close> returns, the whole of \<^verbatim>\<open>mip\<close>. From
  reset, machine mode sets SSIP through \<^verbatim>\<open>mip\<close> and the hart enters S mode with
  \<^verbatim>\<open>mideleg\<close> zero: the read of \<^verbatim>\<open>sip\<close> succeeds, leaves the state as it was and
  yields SSIP where \<^verbatim>\<open>mip & mideleg\<close> is zero. In the same way pending machine
  interrupts (MSIP and MTIP, \<^verbatim>\<open>mip = 0x88\<close>) are read from S mode through \<^verbatim>\<open>sip\<close>,
  while the sibling \<^verbatim>\<open>read_sie\<close> masks \<^verbatim>\<open>mie\<close> by \<^verbatim>\<open>mideleg\<close>.
\<close>

theorem sip_read_returns_undelegated_bits:
  "reachable example_platform
     (example_hart\<lparr>mip := MIP_SSIP, irq_log := [(MIP_SSIP, MIP_SSIP)], priv := PRV_S\<rparr>) \<and>
   mip (example_hart\<lparr>mip := MIP_SSIP, irq_log := [(MIP_SSIP, MIP_SSIP)], priv := PRV_S\<rparr>) AND
     mideleg (example_hart\<lparr>mip := MIP_SSIP, irq_log := [(MIP_SSIP, MIP_SSIP)], priv := PRV_S\<rparr>)
     = 0 \<and>
   riscv_csrrw example_platform
       (example_hart\<lparr>mip := MIP_SSIP, irq_log := [(MIP_SSIP, MIP_SSIP)], priv := PRV_S\<rparr>)
       CSR_SIP (Some 0) 0 0
     = Some (0, Some MIP_SSIP,
         example_hart\<lparr>mip := MIP_SSIP, irq_log := [(MIP_SSIP, MIP_SSIP)], priv := PRV_S\<rparr>) \<and>
   (MIP_SSIP :: 64 word) \<noteq> 0 \<and>
   mip (example_hart\<lparr>mip := 0x88, priv := PRV_S\<rparr>) AND
     mideleg (example_hart\<lparr>mip := 0x88, priv := PRV_S\<rparr>) = 0 \<and>
   riscv_csrrw example_platform (example_hart\<lparr>mip := 0x88, priv := PRV_S\<rparr>)
       CSR_SIP (Some 0) 0 0
     = Some (0, Some 0x88, example_hart\<lparr>mip := 0x88, priv := PRV_S\<rparr>) \<and>
   read_sie (example_hart\<lparr>mie := 0x88, priv := PRV_S\<rparr>) CSR_SIE = Inr 0"
proof -
  let ?e1 = "example_hart\<lparr>mip := MIP_SSIP, irq_log := [(MIP_SSIP, MIP_SSIP)]\<rparr>"
  have "cpu_reset_state example_hart"
    by (simp add: cpu_reset_state_def example_hart_def)
  then have "reachable example_platform example_hart" by (rule reachable.reset)
  moreover have "riscv_csrrw example_platform example_hart CSR_MIP None MIP_SSIP MIP_SSIP
                   = Some (0, None, ?e1)"
    by (simp add: riscv_csrrw_def csr_ops_at csr_gate_fields op_only_def rmw_mip_eq Let_def
        store_ret_def)
       (simp add: example_hart_def PRV_M_def MIP_SSIP_def MIP_STIP_def)
  ultimately have "reachable example_platform ?e1" by (rule reachable.csrrw)
  then have r: "reachable example_platform (?e1\<lparr>priv := PRV_S\<rparr>)"
    by (rule reachable.set_mode)
  have s: "riscv_csrrw example_platform e CSR_SIP (Some 0) 0 0
             = Some (0, Some (ucast (ucast (mip e) :: 32 word)), e)"
    if "priv e = PRV_S" for e :: "(64, unit) CPURISCVState"
    using that
    by (simp add: riscv_csrrw_def csr_ops_at csr_gate_fields op_only_def rmw_zero_mask
        store_ret_def PRV_S_def)
  show ?thesis
    using r s [of "?e1\<lparr>priv := PRV_S\<rparr>"] s [of "example_hart\<lparr>mip := 0x88, priv := PRV_S\<rparr>"]
    by (simp add: example_hart_def MIP_SSIP_def read_sie_def)
qed


subsection \<open>The translation register\<close>

lemma priv_versions_ordered:
  assumes "TARGET_RISCV32 TYPE('a::len) \<or> TARGET_RISCV64 TYPE('a)"
  shows "(PRIV_VERSION_1_09_1 :: 'a word) < PRIV_VERSION_1_10_0"
  using assms
  by (elim xlen_cases)
     (simp_all add: PRIV_VERSION_1_09_1_def PRIV_VERSION_1_10_0_def word_less_nat_alt)

lemma validate_vm_satp_mode:
  fixes env :: "('a::len, 'p) CPURISCVState"
  assumes "TARGET_RISCV32 TYPE('a) \<or> TARGET_RISCV64 TYPE('a)"
    and "priv_ver env \<ge> PRIV_VERSION_1_10_0"
  shows "validate_vm env (get_field val SATP_MODE) \<noteq> 0 \<longleftrightarrow>
           satp_mode_valid (get_field val SATP_MODE)"
proof -
  let ?m = "get_field val (SATP_MODE :: 'a word)"
  have f: "(0xf :: 'a word) = mask 4" by (simp add: mask_eq_exp_minus_1)
  have "?m AND 0xf = ?m"
    unfolding satp_mode_field [OF assms(1)] f using assms(1)
    by (intro bit_word_eqI)
       (auto simp: bit_and_iff bit_drop_bit_eq bit_mask_iff TARGET_RISCV32_def TARGET_RISCV64_def
          dest: bit_imp_le_length)
  then show ?thesis
    using assms(2) by (simp add: validate_vm_def valid_vm_1_10_def satp_mode_valid_def)
qed

text \<open>
  C6. Under privilege spec 1.10 on a hart with an MMU, a write to \<^verbatim>\<open>satp\<close> whose MODE
  field is outside the valid set of the XLEN is dropped: the hart state, \<^verbatim>\<open>satp\<close> and
  the log of TLB flushes included, is unchanged. A write with a valid MODE that differs
  from \<^verbatim>\<open>satp\<close> in MODE, ASID or PPN (that is, in any bit) flushes the TLB and then
  stores the value: the flush is logged with the old \<^verbatim>\<open>satp\<close>.
\<close>

theorem write_satp_validates_mode:
  fixes env :: "('a::len, 'p) CPURISCVState"
  assumes "TARGET_RISCV32 TYPE('a) \<or> TARGET_RISCV64 TYPE('a)"
    and "priv_ver env \<ge> PRIV_VERSION_1_10_0"
    and "riscv_feature_mmu env"
  shows "write_satp env csrno val =
           (if satp_mode_valid (get_field val SATP_MODE) \<and>
               (val XOR satp env) AND (SATP_MODE OR SATP_ASID OR SATP_PPN) \<noteq> 0
            then (0, (tlb_flush env)\<lparr>satp := val\<rparr>)
            else (0, env)) \<and>
         tlb_flush env = env\<lparr>tlb_log := tlb_log env @ [(mstatus env, sptbr env, satp env)]\<rparr> \<and>
         ((val XOR satp env) AND (SATP_MODE OR SATP_ASID OR SATP_PPN) \<noteq> 0
            \<longleftrightarrow> val \<noteq> satp env)"
proof -
  have "\<not> priv_ver env \<le> PRIV_VERSION_1_09_1"
    using priv_versions_ordered [OF assms(1)] assms(2) by simp
  then show ?thesis
    using assms(2,3) validate_vm_satp_mode [OF assms(1,2), of val]
    by (simp add: write_satp_def Let_def satp_fields_cover [OF assms(1)] tlb_flush_def)
qed

theorem write_satp_validates_mode_witness:
  "(TARGET_RISCV32 TYPE(64) \<or> TARGET_RISCV64 TYPE(64)) \<and>
   priv_ver example_hart \<ge> PRIV_VERSION_1_10_0 \<and> riscv_feature_mmu example_hart \<and>
   write_satp example_hart CSR_SATP 0x8000000000000123
     = (0, example_hart\<lparr>satp := 0x8000000000000123, tlb_log := [(0, 0, 0)]\<rparr>) \<and>
   write_satp (example_hart\<lparr>satp := 0x8000000000000123\<rparr>) CSR_SATP 0x7000000000000456
     = (0, example_hart\<lparr>satp := 0x8000000000000123\<rparr>)"
proof -
  let ?e = "example_hart\<lparr>satp := 0x8000000000000123\<rparr>"
  have a: "TARGET_RISCV32 TYPE(64) \<or> TARGET_RISCV64 TYPE(64)"
    by (simp add: TARGET_RISCV64_def)
  have b: "priv_ver example_hart \<ge> PRIV_VERSION_1_10_0" "priv_ver ?e \<ge> PRIV_VERSION_1_10_0"
    by (simp_all add: example_hart_def)
  have c: "riscv_feature_mmu example_hart" "riscv_feature_mmu ?e"
    by (simp_all add: example_hart_def riscv_feature_mmu_def)
  have m: "get_field (0x8000000000000123 :: 64 word) SATP_MODE = 8"
          "get_field (0x7000000000000456 :: 64 word) SATP_MODE = 7"
    by (simp_all add: satp_mode_field [OF a] TARGET_RISCV32_def drop_bit_eq_div)
  have v: "satp_mode_valid (8 :: 64 word)" "\<not> satp_mode_valid (7 :: 64 word)"
    by (simp_all add: satp_mode_valid_def TARGET_RISCV32_def VM_1_10_MBARE_def
        VM_1_10_SV39_def VM_1_10_SV48_def VM_1_10_SV57_def)
  show ?thesis
    using a b c write_satp_validates_mode [OF a b(1) c(1), of CSR_SATP "0x8000000000000123"]
      write_satp_validates_mode [OF a b(2) c(2), of CSR_SATP "0x7000000000000456"]
    by (simp add: m v tlb_flush_def example_hart_def)
qed

subsection \<open>The status register\<close>

lemma write_mstatus_parts:
  "write_mstatus env csrno val =
     (0, (fst (mstatus_flush_and_mask env val))
           \<lparr>mstatus := mstatus_fs_sd
              ((mstatus env AND NOT (snd (mstatus_flush_and_mask env val))) OR
               (val AND snd (mstatus_flush_and_mask env val)))\<rparr>)"
  unfolding write_mstatus_def mstatus_flush_and_mask_def mstatus_fs_sd_def Let_def split_def
    fst_conv snd_conv
  by (rule refl)

lemma tlb_flush_fields [simp]:
  "priv_ver (if c then tlb_flush env else env) = priv_ver env"
  "riscv_has_ext (if c then tlb_flush env else env) x = riscv_has_ext env x"
  "priv_ver (tlb_flush env) = priv_ver env"
  "riscv_has_ext (tlb_flush env) x = riscv_has_ext env x"
  by (simp_all add: tlb_flush_def riscv_has_ext_def)

lemma mstatus_flush_and_mask_snd:
  "snd (mstatus_flush_and_mask env val) = mstatus_write_mask env val"
proof (cases "priv_ver env \<le> PRIV_VERSION_1_09_1"; cases "priv_ver env \<ge> PRIV_VERSION_1_10_0")
qed (simp_all add: mstatus_flush_and_mask_def mstatus_write_mask_def Let_def split_def
      or.assoc del: bit.de_Morgan_disj bit.de_Morgan_conj)

lemma mstatus_flush_and_mask_fst:
  "(fst (mstatus_flush_and_mask env val))\<lparr>tlb_log := tlb_log env\<rparr> = env"
  by (simp add: mstatus_flush_and_mask_def Let_def split_def tlb_flush_def)

lemma write_mstatus_frame:
  "(snd (write_mstatus env c val))\<lparr>tlb_log := tlb_log env, mstatus := mstatus env\<rparr> = env"
proof -
  let ?e = "fst (mstatus_flush_and_mask env val)"
  have "(?e\<lparr>mstatus := m\<rparr>)\<lparr>tlb_log := tlb_log env, mstatus := mstatus env\<rparr>
          = (?e\<lparr>tlb_log := tlb_log env\<rparr>)\<lparr>mstatus := mstatus env\<rparr>" for m
    by simp
  then show ?thesis
    by (simp only: write_mstatus_parts snd_conv mstatus_flush_and_mask_fst) simp
qed

lemma write_mstatus_mstatus:
  "mstatus (snd (write_mstatus env c val)) =
     mstatus_fs_sd ((mstatus env AND NOT (mstatus_write_mask env val)) OR
                    (val AND mstatus_write_mask env val))"
  by (simp add: write_mstatus_parts mstatus_flush_and_mask_snd)

lemma two_bit_field:
  assumes "\<And>n. bit (F :: 'a::len word) n \<longleftrightarrow> n < LENGTH('a) \<and> k \<le> n \<and> n < k + 2"
    and "k + 2 \<le> LENGTH('a)"
  shows "m AND F = 0 \<longleftrightarrow> \<not> bit m k \<and> \<not> bit m (Suc k)"
    and "m AND F = F \<longleftrightarrow> bit m k \<and> bit m (Suc k)"
proof -
  have r: "n = k \<or> n = Suc k" if "k \<le> n" "n < k + 2" for n using that by arith
  show "m AND F = 0 \<longleftrightarrow> \<not> bit m k \<and> \<not> bit m (Suc k)"
  proof
    assume "m AND F = 0"
    then have "\<not> bit (m AND F) k" "\<not> bit (m AND F) (Suc k)" by simp_all
    with assms show "\<not> bit m k \<and> \<not> bit m (Suc k)" by (simp add: bit_and_iff)
  next
    assume "\<not> bit m k \<and> \<not> bit m (Suc k)"
    then show "m AND F = 0"
      by (intro bit_word_eqI) (auto simp: bit_and_iff assms(1) dest: r)
  qed
  show "m AND F = F \<longleftrightarrow> bit m k \<and> bit m (Suc k)"
  proof
    assume e: "m AND F = F"
    have "bit F k" "bit F (Suc k)" using assms by simp_all
    then have "bit (m AND F) k" "bit (m AND F) (Suc k)" by (simp_all only: e)
    then show "bit m k \<and> bit m (Suc k)" by (simp add: bit_and_iff)
  next
    assume "bit m k \<and> bit m (Suc k)"
    then show "m AND F = F"
      by (intro bit_word_eqI) (auto simp: bit_and_iff assms(1) dest: r)
  qed
qed

lemma xlen_ge:
  assumes "TARGET_RISCV32 TYPE('a::len) \<or> TARGET_RISCV64 TYPE('a)"
  shows "32 \<le> LENGTH('a)"
  using assms by (auto simp: TARGET_RISCV32_def TARGET_RISCV64_def)

lemma mstatus_fs_xs:
  fixes m :: "'a::len word"
  assumes "TARGET_RISCV32 TYPE('a) \<or> TARGET_RISCV64 TYPE('a)"
  shows "m AND MSTATUS_FS = 0 \<longleftrightarrow> \<not> bit m 13 \<and> \<not> bit m 14"
    and "m AND MSTATUS_FS = MSTATUS_FS \<longleftrightarrow> bit m 13 \<and> bit m 14"
    and "m AND MSTATUS_XS = MSTATUS_XS \<longleftrightarrow> bit m 15 \<and> bit m 16"
  using two_bit_field [of MSTATUS_FS 13 m] two_bit_field [of MSTATUS_XS 15 m]
    xlen_ge [OF assms]
  by (simp_all add: bit_masks)

lemma set_field_SD:
  fixes m :: "'a::len word"
  assumes "TARGET_RISCV32 TYPE('a) \<or> TARGET_RISCV64 TYPE('a)"
  shows "set_field m MSTATUS_SD (of_bool p OR of_bool q) =
           (m AND NOT MSTATUS_SD) OR (if p \<or> q then MSTATUS_SD else 0)"
proof -
  have u: "(MSTATUS_SD AND NOT (push_bit 1 MSTATUS_SD) :: 'a word) = MSTATUS_SD"
  proof (rule bit_word_eqI)
    fix n assume "n < LENGTH('a)"
    then show "bit (MSTATUS_SD AND NOT (push_bit 1 MSTATUS_SD) :: 'a word) n
                 = bit (MSTATUS_SD :: 'a word) n"
      unfolding bit_and_iff bit_not_iff bit_shl1 bit_SD(1) [OF assms] by auto
  qed
  have "(of_bool p OR of_bool q :: 'a word) = of_bool (p \<or> q)" by (cases p; cases q) simp_all
  then show ?thesis unfolding set_field_def u by simp
qed

lemma bit_mstatus_fs_sd:
  fixes m :: "'a::len word"
  assumes "TARGET_RISCV32 TYPE('a) \<or> TARGET_RISCV64 TYPE('a)"
  shows "bit (mstatus_fs_sd m) n \<longleftrightarrow> n < LENGTH('a) \<and>
     (if Suc n = LENGTH('a) then bit m 13 \<or> bit m 14 \<or> (bit m 15 \<and> bit m 16)
      else if n = 13 \<or> n = 14 then bit m 13 \<or> bit m 14
      else bit m n)"
proof -
  note fx = mstatus_fs_xs [OF assms]
  have l: "32 \<le> LENGTH('a)" by (rule xlen_ge [OF assms])
  show ?thesis
  proof (cases "bit m 13 \<or> bit m 14")
    case True
    then have nz: "m AND MSTATUS_FS \<noteq> 0" by (simp add: fx)
    have b: "bit (m OR MSTATUS_FS) 13" "bit (m OR MSTATUS_FS) 14" using l
      by (simp_all add: bit_or_iff bit_masks)
    show ?thesis using True l
      by (auto simp add: mstatus_fs_sd_def Let_def nz set_field_SD [OF assms] fx b
          bit_or_iff bit_and_iff bit_not_iff bit_SD [OF assms] bit_masks
          dest: bit_imp_le_length)
  next
    case False
    then have z: "m AND MSTATUS_FS = 0" by (simp add: fx)
    show ?thesis using False l
      by (auto simp add: mstatus_fs_sd_def Let_def z set_field_SD [OF assms] fx
          bit_or_iff bit_and_iff bit_not_iff bit_SD [OF assms] bit_masks
          dest: bit_imp_le_length)
  qed
qed

lemma csrrw_cases:
  assumes "riscv_csrrw h env csrno ret_value new_value write_mask = Some (r, cell, env')"
  shows "env' = env \<or>
         (\<exists>w \<in> csr_writers h. \<exists>v. env' = snd (w env csrno v)) \<or>
         env' = snd (snd (rmw_mip env csrno ret_value new_value write_mask)) \<or>
         env' = snd (snd (rmw_sip env csrno ret_value new_value write_mask))"
proof (cases "csr_ops h csrno")
  case None
  with assms show ?thesis by (auto simp: riscv_csrrw_def Let_def split: if_splits)
next
  case (Some ops)
  show ?thesis
  proof (cases "op ops")
    case (Some f)
    with \<open>csr_ops h csrno = Some ops\<close> have "f = rmw_mip \<or> f = rmw_sip"
      by (rule csr_ops_op_cases)
    with assms Some \<open>csr_ops h csrno = Some ops\<close> show ?thesis
      by (auto simp: riscv_csrrw_def Let_def split: if_splits)
  next
    case None
    have wk: "\<exists>w' \<in> csr_writers h. \<exists>v'. e = snd (w' env csrno v')"
      if "write_fn ops = Some w" "w env csrno v = (r', e)" for w v r' e
      using csr_ops_write_cases [OF \<open>csr_ops h csrno = Some ops\<close> that(1)] that(2)
      by (intro bexI [of _ w] exI [of _ v]) simp_all
    from assms None \<open>csr_ops h csrno = Some ops\<close> show ?thesis
      by (auto simp: riscv_csrrw_def Let_def dest: wk
          split: if_splits option.splits sum.splits prod.splits)
  qed
qed

lemma SD_full:
  fixes m :: "'a::len word"
  assumes "TARGET_RISCV32 TYPE('a) \<or> TARGET_RISCV64 TYPE('a)"
  shows "m AND MSTATUS_SD = MSTATUS_SD \<longleftrightarrow> bit m (LENGTH('a) - 1)"
proof
  assume e: "m AND MSTATUS_SD = MSTATUS_SD"
  have "bit (MSTATUS_SD :: 'a word) (LENGTH('a) - 1)" by (simp add: bit_SD [OF assms])
  then have "bit (m AND MSTATUS_SD) (LENGTH('a) - 1)" by (simp only: e)
  then show "bit m (LENGTH('a) - 1)" by (simp add: bit_and_iff)
next
  assume b: "bit m (LENGTH('a) - 1)"
  have "bit m n" if "Suc n = LENGTH('a)" for n
  proof -
    from that have "n = LENGTH('a) - 1" by arith
    with b show ?thesis by simp
  qed
  then show "m AND MSTATUS_SD = MSTATUS_SD"
    by (intro bit_word_eqI) (auto simp: bit_and_iff bit_SD [OF assms])
qed

lemma fs_sd_consistent_write:
  fixes m :: "'a::len word"
  assumes "TARGET_RISCV32 TYPE('a) \<or> TARGET_RISCV64 TYPE('a)"
  shows "fs_sd_consistent (mstatus_fs_sd m)"
  using xlen_ge [OF assms]
  by (auto simp add: fs_sd_consistent_def mstatus_fs_xs [OF assms] SD_full [OF assms]
      bit_mstatus_fs_sd [OF assms])

lemma fs_sd_consistent_dirty:
  fixes m :: "'a::len word"
  assumes "TARGET_RISCV32 TYPE('a) \<or> TARGET_RISCV64 TYPE('a)"
    and "fs_sd_consistent m" and "m AND MSTATUS_FS \<noteq> 0"
  shows "m OR MSTATUS_FS = m"
proof -
  from assms(2,3) have "bit m 13 \<and> bit m 14"
    by (auto simp add: fs_sd_consistent_def mstatus_fs_xs [OF assms(1)])
  moreover have "n = 13 \<or> n = 14" if "13 \<le> n" "n < 15" for n :: nat
    using that by arith
  ultimately show ?thesis
    by (intro bit_word_eqI) (auto simp: bit_or_iff bit_masks)
qed

lemma rmw_keeps_mstatus:
  "mstatus (snd (snd (rmw_mip env c r n m))) = mstatus env"
  "mstatus (snd (snd (rmw_sip env c r n m))) = mstatus env"
  by (simp_all add: rmw_sip_def rmw_mip_eq Let_def)

lemma writer_keeps_fs_sd:
  fixes env :: "('a::len, 'p) CPURISCVState"
  assumes "TARGET_RISCV32 TYPE('a) \<or> TARGET_RISCV64 TYPE('a)"
    and "w \<in> csr_writers h" and "fs_sd_consistent (mstatus env)"
  shows "fs_sd_consistent (mstatus (snd (w env c v)))"
proof -
  have d: "mstatus env AND MSTATUS_FS \<noteq> 0 \<Longrightarrow> mstatus env OR MSTATUS_FS = mstatus env"
    using fs_sd_consistent_dirty [OF assms(1,3)] .
  have "\<forall>w \<in> csr_writers h. fs_sd_consistent (mstatus (snd (w env c v)))"
    unfolding csr_writers_def
    using assms(3) fs_sd_consistent_write [OF assms(1)]
    by (simp add: write_sstatus_def write_mstatus_mstatus write_fflags_def write_frm_def
      write_fcsr_def cpu_riscv_set_fflags_def d
      write_mideleg_def write_medeleg_def write_mie_def write_mtvec_def write_mcounteren_def
      write_mucounteren_def write_mscounteren_def write_mscratch_def write_mepc_def
      write_mcause_def write_mbadaddr_def write_sie_def write_stvec_def write_scounteren_def
      write_sscratch_def write_sepc_def write_scause_def write_sbadaddr_def write_pmpcfg_def
      write_pmpaddr_def write_satp_def tlb_flush_def Let_def)
  with assms(2) show ?thesis by blast
qed

lemma reachable_fs_sd_consistent:
  fixes env :: "('a::len, 'p) CPURISCVState"
  assumes "TARGET_RISCV32 TYPE('a) \<or> TARGET_RISCV64 TYPE('a)"
    and "reachable h env"
  shows "fs_sd_consistent (mstatus env)"
  using assms(2)
proof (induction rule: reachable.induct)
  case (reset env)
  have "(MSTATUS_FS :: 'a word) \<noteq> 0" "(MSTATUS_XS :: 'a word) \<noteq> 0"
    using mstatus_fs_xs(2,3) [OF assms(1), of 0] by auto
  with reset show ?case by (simp add: cpu_reset_state_def fs_sd_consistent_def)
next
  case (csrrw env csrno ret_value new_value write_mask ret cell env')
  from csrrw_cases [OF csrrw.hyps(2)] csrrw.IH show ?case
    by (auto simp: rmw_keeps_mstatus intro: writer_keeps_fs_sd [OF assms(1)])
next
  case (set_mode env newpriv)
  then show ?case by simp
qed

text \<open>
  C4. In every state reachable from reset by CSR operations (writes to \<^verbatim>\<open>mstatus\<close>
  and \<^verbatim>\<open>sstatus\<close>, and the writes to \<^verbatim>\<open>fflags\<close>, \<^verbatim>\<open>frm\<close> and \<^verbatim>\<open>fcsr\<close> that
  set FS to Dirty, included), if \<^verbatim>\<open>mstatus.FS\<close> is Dirty or \<^verbatim>\<open>mstatus.XS\<close> is Dirty
  then \<^verbatim>\<open>mstatus.SD\<close> is 1.
\<close>

theorem reachable_dirty_implies_sd:
  fixes env :: "('a::len, 'p) CPURISCVState"
  assumes "TARGET_RISCV32 TYPE('a) \<or> TARGET_RISCV64 TYPE('a)"
    and "reachable h env"
  shows "mstatus env AND MSTATUS_FS = MSTATUS_FS \<or> mstatus env AND MSTATUS_XS = MSTATUS_XS
           \<longrightarrow> mstatus env AND MSTATUS_SD = MSTATUS_SD"
  using reachable_fs_sd_consistent [OF assms] by (simp add: fs_sd_consistent_def)

lemma mstatus_write_mask_mpp:
  fixes env :: "('a::len, 'p) CPURISCVState"
  assumes "get_field val MSTATUS_MPP = PRV_H \<or>
           (\<not> riscv_has_ext env RVS \<and> get_field val MSTATUS_MPP = PRV_S) \<or>
           (\<not> riscv_has_ext env RVU \<and> get_field val MSTATUS_MPP = PRV_U)"
  shows "\<not> bit (mstatus_write_mask env val) 11" "\<not> bit (mstatus_write_mask env val) 12"
  using assms unfolding mstatus_write_mask_def Let_def
  by (simp_all add: bit_and_iff bit_not_iff bit_masks)

lemma mstatus_write_mask_fields:
  fixes env :: "('a::len, 'p) CPURISCVState"
  assumes "priv_ver env \<le> PRIV_VERSION_1_09_1 \<or> priv_ver env \<ge> PRIV_VERSION_1_10_0"
    and "n < LENGTH('a)"
    and "n = 1 \<or> n = 3 \<or> n = 5 \<or> n = 7 \<or> n = 8 \<or> n = 13 \<or> n = 14 \<or>
         n = 17 \<or> n = 18 \<or> n = 19"
  shows "bit (mstatus_write_mask env val) n"
proof -
  let ?w = "MSTATUS_SIE OR MSTATUS_SPIE OR MSTATUS_MIE OR MSTATUS_MPIE OR
            MSTATUS_SPP OR MSTATUS_FS OR MSTATUS_MPRV OR MSTATUS_SUM OR
            MSTATUS_MPP OR MSTATUS_MXR :: 'a word"
  have w: "bit ?w n" using assms(2,3)
    by (elim disjE) (simp_all add: bit_or_iff bit_masks)
  have m: "\<not> bit (MSTATUS_MPP :: 'a word) n" using assms(3)
    by (elim disjE) (simp_all add: bit_masks)
  have "bit (if c then x AND NOT MSTATUS_MPP else x) n" if "bit x n" for c and x :: "'a word"
    using that m assms(2) by (simp add: bit_and_iff bit_not_iff)
  moreover have "bit (?w OR y) n" for y
    using w bit_or_iff [of ?w y n] by blast
  then have "bit (if priv_ver env \<ge> PRIV_VERSION_1_10_0 then ?w
                  else if priv_ver env \<le> PRIV_VERSION_1_09_1 then ?w OR y else 0) n" for y
    using assms(1) w by (cases "priv_ver env \<ge> PRIV_VERSION_1_10_0") simp_all
  ultimately show ?thesis unfolding mstatus_write_mask_def Let_def by blast
qed

lemma mstatus_write_mask_vm:
  fixes env :: "('a::len, 'p) CPURISCVState"
  assumes "priv_ver env \<le> PRIV_VERSION_1_09_1" "\<not> priv_ver env \<ge> PRIV_VERSION_1_10_0"
    and "validate_vm env (get_field val MSTATUS_VM) \<noteq> 0"
    and "n < LENGTH('a)" "24 \<le> n" "n < 29"
  shows "bit (mstatus_write_mask env val) n"
proof -
  have m: "\<not> bit (MSTATUS_MPP :: 'a word) n" using assms(5) by (simp add: bit_masks)
  have "bit (if c then x AND NOT MSTATUS_MPP else x) n" if "bit x n" for c and x :: "'a word"
    using that m assms(4) by (simp add: bit_and_iff bit_not_iff)
  moreover have "bit (x OR MSTATUS_VM) n" for x :: "'a word"
    using assms(4,5,6) by (simp add: bit_or_iff bit_masks)
  ultimately show ?thesis unfolding mstatus_write_mask_def Let_def
    using assms(1,2,3) by simp
qed


lemma sstatus_mask_has_fs_sd:
  fixes env :: "('a::len, 'p) CPURISCVState"
  assumes "TARGET_RISCV32 TYPE('a) \<or> TARGET_RISCV64 TYPE('a)"
  shows "bit (sstatus_mask env) 13" "bit (sstatus_mask env) 14"
    "bit (sstatus_mask env) (LENGTH('a) - 1)"
proof -
  note l = xlen_ge [OF assms]
  have f: "bit (SSTATUS_FS :: 'a word) 13" "bit (SSTATUS_FS :: 'a word) 14"
    using l by (simp_all add: bit_masks)
  have d: "bit (SSTATUS_SD :: 'a word) (LENGTH('a) - 1)"
    by (simp add: bit_SD [OF assms])
  have i: "bit (a OR b OR c OR d OR e OR SSTATUS_FS OR r) n"
    if "bit (SSTATUS_FS :: 'a word) n" for a b c d e r :: "'a word" and n
    using that by (simp add: bit_or_iff)
  have j9: "bit (a OR b OR c OR d OR e OR f OR g OR h OR SSTATUS_SD) n"
    if "bit (SSTATUS_SD :: 'a word) n" for a b c d e f g h :: "'a word" and n
    using that by (simp add: bit_or_iff)
  have j10: "bit (a OR b OR c OR d OR e OR f OR g OR h OR k OR SSTATUS_SD) n"
    if "bit (SSTATUS_SD :: 'a word) n" for a b c d e f g h k :: "'a word" and n
    using that by (simp add: bit_or_iff)
  show "bit (sstatus_mask env) 13" "bit (sstatus_mask env) 14"
    unfolding sstatus_mask_def sstatus_v1_10_mask_def sstatus_v1_9_mask_def
    using i [OF f(1)] i [OF f(2)] by (simp_all del: bit_or_iff)
  show "bit (sstatus_mask env) (LENGTH('a) - 1)"
    unfolding sstatus_mask_def sstatus_v1_10_mask_def sstatus_v1_9_mask_def
    using j9 [OF d] j10 [OF d] by (simp del: bit_or_iff)
qed

lemma write_mstatus_priv_ver:
  "priv_ver (snd (write_mstatus env c val)) = priv_ver env"
proof -
  have "priv_ver ((snd (write_mstatus env c val))\<lparr>tlb_log := tlb_log env, mstatus := mstatus env\<rparr>)
          = priv_ver env"
    by (simp only: write_mstatus_frame)
  then show ?thesis by simp
qed

lemma mstatus_write_mask_kept:
  fixes env :: "('a::len, 'p) CPURISCVState"
  assumes "n = 0 \<or> n = 4 \<or> n = 15 \<or> n = 16"
  shows "\<not> bit (mstatus_write_mask env val) n"
  using assms unfolding mstatus_write_mask_def Let_def
  by (elim disjE) (simp_all add: bit_and_iff bit_or_iff bit_not_iff bit_masks)

lemma sstatus_mask_fields:
  fixes env :: "('a::len, 'p) CPURISCVState"
  assumes "TARGET_RISCV32 TYPE('a) \<or> TARGET_RISCV64 TYPE('a)"
  shows "bit (sstatus_mask env) 0" "bit (sstatus_mask env) 1" "bit (sstatus_mask env) 4"
    "bit (sstatus_mask env) 5" "bit (sstatus_mask env) 8" "bit (sstatus_mask env) 15"
    "bit (sstatus_mask env) 16" "bit (sstatus_mask env) 18"
    "priv_ver env \<ge> PRIV_VERSION_1_10_0 \<Longrightarrow> bit (sstatus_mask env) 19"
  using xlen_ge [OF assms]
  by (simp_all add: sstatus_mask_def sstatus_v1_10_mask_def sstatus_v1_9_mask_def
      bit_or_iff bit_masks)

lemma and_field_eqI:
  fixes x y f :: "'a::len word"
  assumes "\<And>j. bit f j \<Longrightarrow> bit x j = bit y j"
  shows "x AND f = y AND f"
  by (rule bit_word_eqI) (auto simp: bit_and_iff assms)


lemma mstatus_fs_sd_SD:
  fixes m :: "'a::len word"
  assumes "TARGET_RISCV32 TYPE('a) \<or> TARGET_RISCV64 TYPE('a)"
  shows "mstatus_fs_sd m AND MSTATUS_SD = MSTATUS_SD \<longleftrightarrow>
           mstatus_fs_sd m AND MSTATUS_FS = MSTATUS_FS \<or>
           mstatus_fs_sd m AND MSTATUS_XS = MSTATUS_XS"
  using xlen_ge [OF assms]
  by (auto simp add: mstatus_fs_xs [OF assms] SD_full [OF assms] bit_mstatus_fs_sd [OF assms])

text \<open>
  C7 (as amended). In every state, reading \<^verbatim>\<open>sstatus\<close> yields \<^verbatim>\<open>mstatus\<close> masked by
  the mask \<open>S\<close> of the privilege-spec version (also through \<^verbatim>\<open>riscv_csrrw\<close> from S or
  M). A write of \<open>val\<close> to \<^verbatim>\<open>sstatus\<close> is the \<^verbatim>\<open>mstatus\<close> write of
  \<^verbatim>\<open>(mstatus & ~S) | (val & S)\<close> and returns 0. It changes no bit of \<^verbatim>\<open>mstatus\<close>
  outside \<open>S\<close>. Inside \<open>S\<close> the \<^verbatim>\<open>mstatus\<close> writer decides: SIE, SPIE, SPP and SUM
  (and MXR under 1.10) take the written value, FS becomes Off when the written FS is zero
  and Dirty otherwise, SD is recomputed as FS or XS being Dirty, and UIE, UPIE and XS
  keep their prior values. \<^verbatim>\<open>sstatus\<close> read after the write is again the masked
  \<^verbatim>\<open>mstatus\<close>.
\<close>

theorem sstatus_write_goes_through_mstatus:
  fixes env :: "('a::len, 'p) CPURISCVState"
  assumes "TARGET_RISCV32 TYPE('a) \<or> TARGET_RISCV64 TYPE('a)"
  shows
    "let S = sstatus_mask env;
         m' = mstatus (snd (write_sstatus env csrno val))
     in read_sstatus env csrno = Inr (mstatus env AND S) \<and>
        (\<not> priv env < PRV_S \<longrightarrow>
           riscv_csrrw h env CSR_SSTATUS ret_value val 0
             = Some (0, store_ret ret_value (mstatus env AND S), env)) \<and>
        write_sstatus env csrno val =
          write_mstatus env CSR_MSTATUS ((mstatus env AND NOT S) OR (val AND S)) \<and>
        fst (write_sstatus env csrno val) = 0 \<and>
        m' AND NOT S = mstatus env AND NOT S \<and>
        (\<forall>f \<in> {MSTATUS_UIE, MSTATUS_UPIE, MSTATUS_XS}. m' AND f = mstatus env AND f) \<and>
        (priv_ver env \<le> PRIV_VERSION_1_09_1 \<or> priv_ver env \<ge> PRIV_VERSION_1_10_0 \<longrightarrow>
           (\<forall>f \<in> {MSTATUS_SIE, MSTATUS_SPIE, MSTATUS_SPP, MSTATUS_SUM}.
              m' AND f = val AND f) \<and>
           m' AND MSTATUS_FS = (if val AND MSTATUS_FS = 0 then 0 else MSTATUS_FS)) \<and>
        (priv_ver env \<ge> PRIV_VERSION_1_10_0 \<longrightarrow> m' AND MSTATUS_MXR = val AND MSTATUS_MXR) \<and>
        (m' AND MSTATUS_SD = MSTATUS_SD \<longleftrightarrow>
           m' AND MSTATUS_FS = MSTATUS_FS \<or> m' AND MSTATUS_XS = MSTATUS_XS) \<and>
        read_sstatus (snd (write_sstatus env csrno val)) csrno = Inr (m' AND S)"
proof -
  let ?S = "sstatus_mask env"
  let ?new = "(mstatus env AND NOT ?S) OR (val AND ?S)"
  let ?K = "mstatus_write_mask env ?new"
  let ?m1 = "(mstatus env AND NOT ?K) OR (?new AND ?K)"
  let ?m' = "mstatus (snd (write_sstatus env csrno val))"
  note l = xlen_ge [OF assms]
  note sf = sstatus_mask_fields [OF assms, of env]
  note sd = sstatus_mask_has_fs_sd [OF assms, of env]
  have r: "read_sstatus e c = Inr (mstatus e AND sstatus_mask e)"
    for e :: "('a, 'p) CPURISCVState" and c
    by (simp add: read_sstatus_def sstatus_mask_def)
  have w: "write_sstatus env csrno val = write_mstatus env CSR_MSTATUS ?new"
    by (simp add: write_sstatus_def sstatus_mask_def Let_def)
  have m': "?m' = mstatus_fs_sd ?m1" by (simp only: w write_mstatus_mstatus)
  have bnew: "bit ?new n \<longleftrightarrow> (if bit ?S n then bit val n else bit (mstatus env) n)" for n
    by (auto simp: bit_or_iff bit_and_iff bit_not_iff dest: bit_imp_le_length)
  have b1: "bit ?m1 n \<longleftrightarrow> (if bit ?K n then bit ?new n else bit (mstatus env) n)" for n
    by (auto simp: bit_or_iff bit_and_iff bit_not_iff dest: bit_imp_le_length)
  have bm': "bit ?m' n \<longleftrightarrow> n < LENGTH('a) \<and>
     (if Suc n = LENGTH('a) then bit ?m1 13 \<or> bit ?m1 14 \<or> (bit ?m1 15 \<and> bit ?m1 16)
      else if n = 13 \<or> n = 14 then bit ?m1 13 \<or> bit ?m1 14
      else bit ?m1 n)" for n
    unfolding m' by (rule bit_mstatus_fs_sd [OF assms])
  have frame: "?m' AND NOT ?S = mstatus env AND NOT ?S"
  proof (rule bit_word_eqI)
    fix n assume n: "n < LENGTH('a)"
    have "bit ?m' n = bit (mstatus env) n" if "\<not> bit ?S n"
    proof -
      from that sd have "n \<noteq> 13" "n \<noteq> 14" "n \<noteq> LENGTH('a) - 1" by auto
      moreover have "bit ?m1 n = bit (mstatus env) n" using that by (simp add: b1 bnew)
      ultimately show ?thesis using n by (auto simp: bm')
    qed
    then show "bit (?m' AND NOT ?S) n = bit (mstatus env AND NOT ?S) n"
      by (auto simp: bit_and_iff bit_not_iff)
  qed
  have kept: "bit ?m' n = bit (mstatus env) n" if "n = 0 \<or> n = 4 \<or> n = 15 \<or> n = 16" for n
  proof -
    have "\<not> bit ?K n" using that by (rule mstatus_write_mask_kept)
    then have "bit ?m1 n = bit (mstatus env) n" by (simp add: b1)
    moreover have "bit (mstatus env) n \<Longrightarrow> n < LENGTH('a)" by (rule bit_imp_le_length)
    ultimately show ?thesis using that l by (auto simp: bm')
  qed
  have r2: "j = 15 \<or> j = 16" if "15 \<le> j" "j < 17" for j :: nat using that by arith
  have keeps: "?m' AND MSTATUS_UIE = mstatus env AND MSTATUS_UIE"
    "?m' AND MSTATUS_UPIE = mstatus env AND MSTATUS_UPIE"
    "?m' AND MSTATUS_XS = mstatus env AND MSTATUS_XS"
    by (rule and_field_eqI, auto simp: bit_masks kept dest: r2)+
  have written: "bit ?m' n = bit val n"
    if "priv_ver env \<le> PRIV_VERSION_1_09_1 \<or> priv_ver env \<ge> PRIV_VERSION_1_10_0"
      "n = 1 \<or> n = 5 \<or> n = 8 \<or> n = 18 \<or> (n = 19 \<and> priv_ver env \<ge> PRIV_VERSION_1_10_0)" for n
  proof -
    have n: "n < LENGTH('a)" using that(2) l by auto
    have "bit ?K n" using that(2) by (intro mstatus_write_mask_fields [OF that(1) n]) auto
    moreover have "bit ?S n" using that(2) sf by auto
    ultimately have "bit ?m1 n = bit val n" by (simp add: b1 bnew)
    then show ?thesis using that(2) l n by (auto simp: bm')
  qed
  have writes: "?m' AND MSTATUS_SIE = val AND MSTATUS_SIE"
    "?m' AND MSTATUS_SPIE = val AND MSTATUS_SPIE"
    "?m' AND MSTATUS_SPP = val AND MSTATUS_SPP"
    "?m' AND MSTATUS_SUM = val AND MSTATUS_SUM"
    if "priv_ver env \<le> PRIV_VERSION_1_09_1 \<or> priv_ver env \<ge> PRIV_VERSION_1_10_0"
    by (rule and_field_eqI, rule written [OF that], auto simp: bit_masks)+
  have mxr: "?m' AND MSTATUS_MXR = val AND MSTATUS_MXR"
    if "priv_ver env \<ge> PRIV_VERSION_1_10_0"
    by (rule and_field_eqI, rule written [OF disjI2 [OF that]])
       (use that in \<open>auto simp: bit_masks\<close>)
  have fs: "?m' AND MSTATUS_FS = (if val AND MSTATUS_FS = 0 then 0 else MSTATUS_FS)"
    if v: "priv_ver env \<le> PRIV_VERSION_1_09_1 \<or> priv_ver env \<ge> PRIV_VERSION_1_10_0"
  proof -
    have K: "bit ?K 13" "bit ?K 14"
      using l by (auto intro!: mstatus_write_mask_fields [OF v])
    have "bit ?m1 13 = bit val 13" "bit ?m1 14 = bit val 14"
      using K sd by (simp_all add: b1 bnew)
    then have "bit ?m' 13 = (bit val 13 \<or> bit val 14)" "bit ?m' 14 = (bit val 13 \<or> bit val 14)"
      using l by (auto simp: bm')
    then show ?thesis
      using mstatus_fs_xs(1,2) [OF assms, of ?m'] mstatus_fs_xs(1) [OF assms, of val]
      by auto
  qed
  have sdb: "?m' AND MSTATUS_SD = MSTATUS_SD \<longleftrightarrow>
               ?m' AND MSTATUS_FS = MSTATUS_FS \<or> ?m' AND MSTATUS_XS = MSTATUS_XS"
    unfolding m' by (rule mstatus_fs_sd_SD [OF assms])
  have sm: "sstatus_mask (snd (write_sstatus env csrno val)) = ?S"
    by (simp add: w sstatus_mask_def write_mstatus_priv_ver)
  have g: "riscv_csrrw h env CSR_SSTATUS ret_value val 0
             = Some (0, store_ret ret_value (mstatus env AND ?S), env)" if "\<not> priv env < PRV_S"
    using that
    by (simp add: riscv_csrrw_def csr_ops_at csr_gate_fields rd_wr_def r PRV_S_def)
  have ret: "fst (write_sstatus env csrno val) = 0" by (simp add: w)
  have c1: "read_sstatus env csrno = Inr (mstatus env AND ?S)" by (rule r)
  have c2: "\<not> priv env < PRV_S \<longrightarrow>
              riscv_csrrw h env CSR_SSTATUS ret_value val 0
                = Some (0, store_ret ret_value (mstatus env AND ?S), env)"
    using g by blast
  have c6: "\<forall>f \<in> {MSTATUS_UIE, MSTATUS_UPIE, MSTATUS_XS}. ?m' AND f = mstatus env AND f"
    using keeps by simp
  have c7: "priv_ver env \<le> PRIV_VERSION_1_09_1 \<or> priv_ver env \<ge> PRIV_VERSION_1_10_0 \<longrightarrow>
              (\<forall>f \<in> {MSTATUS_SIE, MSTATUS_SPIE, MSTATUS_SPP, MSTATUS_SUM}.
                 ?m' AND f = val AND f) \<and>
              ?m' AND MSTATUS_FS = (if val AND MSTATUS_FS = 0 then 0 else MSTATUS_FS)"
  proof
    assume v: "priv_ver env \<le> PRIV_VERSION_1_09_1 \<or> priv_ver env \<ge> PRIV_VERSION_1_10_0"
    from writes [OF v] fs [OF v]
    show "(\<forall>f \<in> {MSTATUS_SIE, MSTATUS_SPIE, MSTATUS_SPP, MSTATUS_SUM}.
             ?m' AND f = val AND f) \<and>
          ?m' AND MSTATUS_FS = (if val AND MSTATUS_FS = 0 then 0 else MSTATUS_FS)"
      by simp
  qed
  have c8: "priv_ver env \<ge> PRIV_VERSION_1_10_0 \<longrightarrow> ?m' AND MSTATUS_MXR = val AND MSTATUS_MXR"
    using mxr by blast
  have c10: "read_sstatus (snd (write_sstatus env csrno val)) csrno = Inr (?m' AND ?S)"
    by (simp only: r sm)
  show ?thesis
    unfolding Let_def
    by (intro conjI) (rule c1 c2 w ret frame c6 c7 c8 sdb c10)+
qed

lemmas mstatus_consts =
  MSTATUS_SIE_def MSTATUS_SPIE_def MSTATUS_MIE_def MSTATUS_MPIE_def MSTATUS_SPP_def
  MSTATUS_FS_def MSTATUS_MPRV_def MSTATUS_SUM_def MSTATUS_MPP_def MSTATUS_MXR_def
  MSTATUS_VM_def MSTATUS_XS_def MSTATUS_SD_def MSTATUS32_SD_def MSTATUS64_SD_def
  TARGET_RISCV32_def TARGET_RISCV64_def PRV_U_def PRV_S_def PRV_H_def PRV_M_def
  PRIV_VERSION_1_09_1_def PRIV_VERSION_1_10_0_def RVS_def RVU_def

lemma write_mstatus_example:
  "write_mstatus example_hart CSR_MSTATUS 0x2000
     = (0, example_hart\<lparr>mstatus := 0x8000000000006000\<rparr>)"
  "write_mstatus example_hart CSR_MSTATUS 0x1008
     = (0, example_hart\<lparr>tlb_log := [(0, 0, 0)], mstatus := 8\<rparr>)"
  by (simp_all add: write_mstatus_def Let_def example_hart_def mstatus_consts get_field_def
      set_field_def riscv_has_ext_def tlb_flush_def)

theorem reachable_dirty_implies_sd_witness:
  "(TARGET_RISCV32 TYPE(64) \<or> TARGET_RISCV64 TYPE(64)) \<and>
   reachable example_platform (example_hart\<lparr>mstatus := 0x8000000000006000\<rparr>) \<and>
   mstatus (example_hart\<lparr>mstatus := 0x8000000000006000\<rparr>) AND MSTATUS_FS = MSTATUS_FS \<and>
   mstatus (example_hart\<lparr>mstatus := 0x8000000000006000\<rparr>) AND MSTATUS_SD = MSTATUS_SD"
proof -
  let ?e = "example_hart\<lparr>mstatus := 0x8000000000006000\<rparr>"
  have a: "TARGET_RISCV32 TYPE(64) \<or> TARGET_RISCV64 TYPE(64)"
    by (simp add: TARGET_RISCV64_def)
  have "cpu_reset_state example_hart"
    by (simp add: cpu_reset_state_def example_hart_def)
  then have "reachable example_platform example_hart" by (rule reachable.reset)
  moreover have "riscv_csrrw example_platform example_hart CSR_MSTATUS None 0x2000 (- 1)
                   = Some (0, None, ?e)"
    by (simp add: riscv_csrrw_def csr_ops_at csr_gate_fields rd_wr_def read_mstatus_def
        write_mstatus_example store_ret_def)
       (simp add: example_hart_def PRV_M_def)
  ultimately have r: "reachable example_platform ?e" by (rule reachable.csrrw)
  have f: "mstatus ?e AND MSTATUS_FS = MSTATUS_FS" by (simp add: MSTATUS_FS_def)
  from a r f reachable_dirty_implies_sd [OF a r] show ?thesis by simp
qed


lemmas sstatus_consts =
  sstatus_mask_def sstatus_v1_10_mask_def sstatus_v1_9_mask_def SSTATUS_SIE_def
  SSTATUS_SPIE_def SSTATUS_UIE_def SSTATUS_UPIE_def SSTATUS_SPP_def SSTATUS_FS_def
  SSTATUS_XS_def SSTATUS_SUM_def SSTATUS_MXR_def SSTATUS_SD_def

lemma write_sstatus_example:
  "write_sstatus example_hart CSR_SSTATUS 0x18011 = (0, example_hart)"
  "write_sstatus example_hart CSR_SSTATUS 0x18033 = (0, example_hart\<lparr>mstatus := 0x22\<rparr>)"
  by (simp_all add: write_sstatus_def write_mstatus_def Let_def example_hart_def
      mstatus_consts sstatus_consts get_field_def set_field_def riscv_has_ext_def tlb_flush_def)

theorem sstatus_write_goes_through_mstatus_witness:
  "(TARGET_RISCV32 TYPE(64) \<or> TARGET_RISCV64 TYPE(64)) \<and>
   \<not> priv example_hart < PRV_S \<and>
   priv_ver example_hart \<ge> PRIV_VERSION_1_10_0 \<and>
   write_sstatus example_hart CSR_SSTATUS 0x18033 = (0, example_hart\<lparr>mstatus := 0x22\<rparr>) \<and>
   mstatus (snd (write_sstatus example_hart CSR_SSTATUS 0x18033)) AND MSTATUS_SIE
     = 0x18033 AND MSTATUS_SIE \<and>
   mstatus (snd (write_sstatus example_hart CSR_SSTATUS 0x18033)) AND MSTATUS_XS
     = mstatus example_hart AND MSTATUS_XS \<and>
   riscv_csrrw example_platform example_hart CSR_SSTATUS (Some 5) 0x18033 0
     = Some (0, Some 0, example_hart)"
proof -
  have a: "TARGET_RISCV32 TYPE(64) \<or> TARGET_RISCV64 TYPE(64)"
    by (simp add: TARGET_RISCV64_def)
  have p: "\<not> priv example_hart < PRV_S"
    by (simp add: example_hart_def PRV_M_def PRV_S_def)
  have v: "priv_ver example_hart \<ge> PRIV_VERSION_1_10_0" by (simp add: example_hart_def)
  note th = sstatus_write_goes_through_mstatus [OF a, of example_hart CSR_SSTATUS "0x18033"
      example_platform "Some 5", unfolded Let_def]
  from th v have sie:
    "mstatus (snd (write_sstatus example_hart CSR_SSTATUS 0x18033)) AND MSTATUS_SIE
       = 0x18033 AND MSTATUS_SIE"
    by blast
  from th have xs:
    "mstatus (snd (write_sstatus example_hart CSR_SSTATUS 0x18033)) AND MSTATUS_XS
       = mstatus example_hart AND MSTATUS_XS"
    by blast
  from th p have "riscv_csrrw example_platform example_hart CSR_SSTATUS (Some 5) 0x18033 0
      = Some (0, store_ret (Some 5) (mstatus example_hart AND sstatus_mask example_hart),
          example_hart)"
    by blast
  then have rd: "riscv_csrrw example_platform example_hart CSR_SSTATUS (Some 5) 0x18033 0
      = Some (0, Some 0, example_hart)"
    by (simp add: store_ret_def example_hart_def)
  show ?thesis
    by (intro conjI) (rule a p v sie xs rd write_sstatus_example)+
qed

text \<open>
  The claim as stated, with a write updating exactly the masked bits, fails in the reset
  state for the value \<^verbatim>\<open>0x18011\<close> (UIE, UPIE and XS, all inside the 1.10 mask): the
  write succeeds and leaves \<^verbatim>\<open>mstatus\<close> at zero.
\<close>

theorem sstatus_write_counterexample:
  "reachable example_platform example_hart \<and>
   0x18011 AND sstatus_mask example_hart = 0x18011 \<and>
   write_sstatus example_hart CSR_SSTATUS 0x18011 = (0, example_hart) \<and>
   mstatus (snd (write_sstatus example_hart CSR_SSTATUS 0x18011)) AND sstatus_mask example_hart
     \<noteq> 0x18011 AND sstatus_mask example_hart"
proof -
  have "cpu_reset_state example_hart"
    by (simp add: cpu_reset_state_def example_hart_def)
  then have r: "reachable example_platform example_hart" by (rule reachable.reset)
  have "0x18011 AND sstatus_mask example_hart = 0x18011 \<and>
    write_sstatus example_hart CSR_SSTATUS 0x18011 = (0, example_hart) \<and>
    mstatus (snd (write_sstatus example_hart CSR_SSTATUS 0x18011)) AND sstatus_mask example_hart
      \<noteq> 0x18011 AND sstatus_mask example_hart"
    by (simp add: write_sstatus_example)
       (simp add: example_hart_def sstatus_consts TARGET_RISCV32_def)
  with r show ?thesis by (rule conjI)
qed

end
